theory Spec2Isabelle
  imports Main "HOL-Library.Word" "HOL-Library.AList" "HOL-Library.Char_ord" "HOL-Library.List_Lexorder"
begin

section \<open>Platform values\<close>

text \<open>
  Identifiers, nicknames and message texts are JavaScript strings; they are modelled as
  \<^typ>\<open>string\<close>, a list of code units below 256. The text codec of the crypto service, whose
  behaviour depends on the full range of UTF-16 code units, has its own string type below.
\<close>

subsection \<open>\<open>JSON.stringify\<close> on the objects the services send\<close>

datatype json = JString string | JNumber nat | JObject "(string \<times> json) list"

definition hex_digit :: "nat \<Rightarrow> char" where
  "hex_digit n = (if n < 10 then char_of (48 + n) else char_of (87 + n))"

text \<open>
  \<open>QuoteJSONString\<close> of ECMAScript: the two-character escapes for backspace, tab, line
  feed, form feed, carriage return, the double quote and the backslash, \<open>\u00xx\<close> for the
  other code units below 0x20, every other code unit as it is.
\<close>

definition quote_unit :: "char \<Rightarrow> string" where
  "quote_unit c =
     (let n = (of_char c :: nat) in
      if n = 0x08 then [CHR 0x5C, CHR ''b'']
      else if n = 0x09 then [CHR 0x5C, CHR ''t'']
      else if n = 0x0A then [CHR 0x5C, CHR ''n'']
      else if n = 0x0C then [CHR 0x5C, CHR ''f'']
      else if n = 0x0D then [CHR 0x5C, CHR ''r'']
      else if n = 0x22 then [CHR 0x5C, CHR 0x22]
      else if n = 0x5C then [CHR 0x5C, CHR 0x5C]
      else if n < 0x20 then [CHR 0x5C, CHR ''u'', CHR ''0'', CHR ''0'',
                             hex_digit (n div 16), hex_digit (n mod 16)]
      else [c])"

definition QuoteJSONString :: "string \<Rightarrow> string" where
  "QuoteJSONString s = [CHR 0x22] @ concat (map quote_unit s) @ [CHR 0x22]"

text \<open>\<open>Number::toString\<close> on a non-negative integer: its decimal digits.\<close>

function decimal :: "nat \<Rightarrow> string" where
  "decimal n =
     (if n < 10 then [char_of (48 + n)]
      else decimal (n div 10) @ [char_of (48 + n mod 10)])"
  by pat_completeness auto
termination
  by (relation "measure id") auto

declare decimal.simps [simp del]

text \<open>Properties are written in insertion order, separated by commas, with no white space.\<close>

fun intersperse :: "'a list \<Rightarrow> 'a list list \<Rightarrow> 'a list" where
  "intersperse sep [] = []"
| "intersperse sep [x] = x"
| "intersperse sep (x # y # ys) = x @ sep @ intersperse sep (y # ys)"

fun JSON_stringify :: "json \<Rightarrow> string" where
  "JSON_stringify (JString s) = QuoteJSONString s"
| "JSON_stringify (JNumber n) = decimal n"
| "JSON_stringify (JObject props) =
     ''{'' @ intersperse '',''
              (map (\<lambda>(k, v). QuoteJSONString k @ '':'' @ JSON_stringify v) props) @ ''}''"

section \<open>BluetoothService (bluetooth-service.js)\<close>

subsection \<open>State\<close>

text \<open>
  An \<open>RTCDataChannel\<close> as the service sees it: its \<open>readyState\<close>, the messages handed to
  \<open>send\<close> so far, and the platform's verdict on a message handed to \<open>send\<close> (\<open>send\<close> throws
  for a message the transport cannot take, such as one above its maximum message size).
\<close>

datatype ready_state = Connecting | Open | Closing | Closed

record data_channel =
  readyState :: ready_state
  accepts :: "string \<Rightarrow> bool"
  sent :: "string list"

text \<open>
  \<open>dataChannel.send(message)\<close>: \<open>None\<close> when the call throws (the channel is not open, or
  the platform refuses the message), otherwise the channel with the message queued.
\<close>

definition channel_send :: "data_channel \<Rightarrow> string \<Rightarrow> data_channel option" where
  "channel_send ch message =
     (if readyState ch = Open \<and> accepts ch message
      then Some (ch\<lparr>sent := sent ch @ [message]\<rparr>) else None)"

text \<open>The values of \<open>this.peers\<close> and \<open>this.discoveredPeers\<close>.\<close>

record peer_info =
  peer_id :: string
  peer_name :: string
  peer_connected :: bool
  connectedAt :: nat
  peer_rssi :: int
  lastSeen :: nat

record discovered_info =
  disc_id :: string
  disc_name :: string
  disc_rssi :: int
  discovered :: nat
  disc_connected :: bool

text \<open>
  The signaling envelopes, by their \<open>type\<close> field: \<open>Offer\<close>, \<open>Answer\<close> and \<open>IceCandidate\<close>
  carry \<open>peerId\<close> (the sender), \<open>targetPeer\<close> and \<open>data\<close>. \<open>OtherType\<close> is an envelope with
  any other \<open>type\<close>.
\<close>

datatype signaling_message =
    Join string string
  | RoomJoined "string list"
  | PeerJoined string
  | PeerLeft string
  | Offer string string string
  | Answer string string string
  | IceCandidate string string string
  | OtherType string

text \<open>
  What \<open>JSON.parse\<close> makes of the text received on a data channel: \<open>Unparsable\<close> when it
  throws; an object by its \<open>type\<close> field, a handshake with its \<open>nickname\<close> (a string);
  \<open>OtherMessage\<close> for any other value.
\<close>

datatype incoming =
    Unparsable
  | Handshake string
  | Chat json
  | Private json
  | Announcement json
  | OtherMessage

text \<open>The calls the service makes on its delegate.\<close>

datatype delegate_event =
    OnPeerDiscovered string string int
  | OnPeerConnected string string
  | OnPeerDisconnected string
  | OnScanningStarted
  | OnScanningStopped
  | OnHandshakeReceived string string
  | OnMessageReceived string json
  | OnPrivateMessageReceived string json
  | OnAnnouncementReceived string json

text \<open>
  Pending \<open>setTimeout\<close> callbacks: the fallback to \<open>simulatePeerDiscovery\<close>, the staggered
  discovery of the simulated peer with a given index, and its automatic connection.
\<close>

datatype timer = FallbackTimer | DiscoverTimer nat | AutoConnectTimer string

text \<open>
  An \<open>async\<close> method suspended at an \<open>await\<close> on the platform's negotiation calls
  (\<open>createOffer\<close>, \<open>setRemoteDescription\<close>, \<open>createAnswer\<close>, \<open>setLocalDescription\<close>):
  \<open>OfferTask p\<close> is \<open>initiateConnectionToPeer(p)\<close> before it sends its offer;
  \<open>AnswerTask p del\<close> is \<open>handleIncomingOffer\<close> (\<open>del\<close> true: its \<open>catch\<close> deletes the
  connection) or the \<open>offer\<close> case of \<open>handleWebRTCSignaling\<close> (\<open>del\<close> false: its \<open>catch\<close>
  only logs) before it sends its answer.
\<close>

datatype task = OfferTask string | AnswerTask string bool

datatype ws_state = NoSocket | WsConnecting | WsOpened | WsClosed

text \<open>
  The fields of the service. \<open>peers\<close> is a \<open>Map\<close> that the code iterates, so it is an
  association list in insertion order (\<open>Map.set\<close> is \<^const>\<open>AList.update\<close>). An
  \<open>RTCPeerConnection\<close> is an opaque platform object: \<open>connections\<close> keeps its identity, a
  number drawn from \<open>nextConnection\<close>. \<open>myId\<close> is the value \<open>getMyId()\<close> generates once and
  then returns. \<open>bt_delegate\<close> says for which calls the delegate object has a method; it
  is false everywhere while \<open>this.delegate\<close> is \<open>null\<close>. \<open>createdChannels\<close> lists the data
  channels that the service has created with \<open>createDataChannel\<close>, each with the connection
  it was created on and the peer whose handlers \<open>setupDataChannel\<close> has registered on it.
  \<open>sockets\<close> holds the \<open>readyState\<close> of every \<open>WebSocket\<close> that \<open>setupSignaling\<close> has
  constructed, oldest first: each of them keeps its handlers, and \<open>this.signalingWs\<close> is
  the last. \<open>pendingProbes\<close> counts the runs of \<open>init\<close> that wait for
  \<open>checkSignalingConnectivity\<close>; \<open>hasSignaling\<close> is the local of \<open>initWithFallback\<close> in the
  run that resumed last. \<open>scanIntervals\<close> counts the \<open>setInterval\<close> registrations of
  \<open>startPeerDiscovery\<close>. \<open>now\<close> is the platform clock (\<open>Date.now()\<close>) and
  \<open>stored_nickname\<close> is \<open>localStorage.getItem('bitchat-nickname')\<close>.
\<close>

record bluetooth_service =
  myId :: string
  roomId :: string
  peers :: "(string \<times> peer_info) list"
  discoveredPeers :: "string \<rightharpoonup> discovered_info"
  isScanning :: bool
  isAdvertising :: bool
  bt_delegate :: "delegate_event \<Rightarrow> bool"
  connections :: "string \<rightharpoonup> nat"
  dataChannels :: "string \<rightharpoonup> data_channel"
  createdChannels :: "(nat \<times> string) list"
  sockets :: "ws_state list"
  signalingSent :: "signaling_message list"
  pendingProbes :: nat
  hasSignaling :: "bool option"
  timers :: "timer list"
  scanIntervals :: nat
  tasks :: "task list"
  nextConnection :: nat
  delegate_log :: "delegate_event list"
  now :: nat
  stored_nickname :: "string option"

text \<open>
  \<open>init()\<close> up to the \<open>await\<close> of \<open>initWithFallback\<close> on \<open>checkSignalingConnectivity()\<close>:
  \<open>setupWebBluetooth\<close> and \<open>setupWebRTC\<close> only log, and the probe is pending.
\<close>

definition init :: "bluetooth_service \<Rightarrow> bluetooth_service" where
  "init s = s\<lparr>pendingProbes := Suc (pendingProbes s)\<rparr>"

text \<open>The constructor: it sets the fields and ends with \<open>this.init()\<close>.\<close>

definition new_service :: "string \<Rightarrow> string \<Rightarrow> bluetooth_service" where
  "new_service my_id room =
     init
       \<lparr>myId = my_id, roomId = room, peers = [], discoveredPeers = Map.empty,
        isScanning = False, isAdvertising = False, bt_delegate = (\<lambda>ev. False),
        connections = Map.empty, dataChannels = Map.empty, createdChannels = [],
        sockets = [], signalingSent = [], pendingProbes = 0, hasSignaling = None,
        timers = [], scanIntervals = 0, tasks = [], nextConnection = 0,
        delegate_log = [], now = 0, stored_nickname = None\<rparr>"

text \<open>
  The \<open>readyState\<close> of \<open>this.signalingWs\<close>, the socket constructed last; \<open>NoSocket\<close> while
  the field is undefined.
\<close>

definition signalingWs :: "bluetooth_service \<Rightarrow> ws_state" where
  "signalingWs s = (if sockets s = [] then NoSocket else last (sockets s))"

definition setDelegate :: "bluetooth_service \<Rightarrow> (delegate_event \<Rightarrow> bool) \<Rightarrow> bluetooth_service" where
  "setDelegate s delegate = s\<lparr>bt_delegate := delegate\<rparr>"

text \<open>
  The delegate that \<open>ChatService.init\<close> sets: an object with a method for every call but
  \<open>onAnnouncementReceived\<close>.
\<close>

fun chat_delegate :: "delegate_event \<Rightarrow> bool" where
  "chat_delegate (OnAnnouncementReceived p m) = False"
| "chat_delegate ev = True"

text \<open>A call on the delegate, guarded by \<open>this.delegate && this.delegate.onX\<close>.\<close>

definition notify :: "bluetooth_service \<Rightarrow> delegate_event \<Rightarrow> bluetooth_service" where
  "notify s ev = (if bt_delegate s ev then s\<lparr>delegate_log := delegate_log s @ [ev]\<rparr> else s)"

subsection \<open>Sending over data channels\<close>

text \<open>
  \<open>sendToPeer(peerId, message)\<close>: the new state and the boolean the method returns.
\<close>

definition sendToPeer :: "bluetooth_service \<Rightarrow> string \<Rightarrow> string \<Rightarrow> bluetooth_service \<times> bool" where
  "sendToPeer s peerId message =
     (case dataChannels s peerId of
        Some dataChannel \<Rightarrow>
          (if readyState dataChannel = Open
           then (case channel_send dataChannel message of
                   Some ch \<Rightarrow> (s\<lparr>dataChannels := (dataChannels s)(peerId \<mapsto> ch)\<rparr>, True)
                 | None \<Rightarrow> (s, False))
           else (s, False))
      | None \<Rightarrow> (s, False))"

text \<open>
  Two notions the properties below are stated with: the channel of a peer when the table
  holds one whose \<open>readyState\<close> is \<open>open\<close>, and whether a message can be delivered to a
  peer (it has such a channel, and the platform takes the message).
\<close>

definition open_channel :: "bluetooth_service \<Rightarrow> string \<Rightarrow> data_channel option" where
  "open_channel s peerId =
     (case dataChannels s peerId of
        Some ch \<Rightarrow> (if readyState ch = Open then Some ch else None)
      | None \<Rightarrow> None)"

definition can_send :: "bluetooth_service \<Rightarrow> string \<Rightarrow> string \<Rightarrow> bool" where
  "can_send s peerId m = (case open_channel s peerId of Some ch \<Rightarrow> accepts ch m | None \<Rightarrow> False)"

text \<open>
  \<open>broadcastMessage(message)\<close>: \<open>this.peers.forEach\<close> in insertion order, counting the
  sends that returned \<open>true\<close>.
\<close>

fun broadcast_loop :: "bluetooth_service \<Rightarrow> string \<Rightarrow> string list \<Rightarrow> nat \<Rightarrow> bluetooth_service \<times> nat" where
  "broadcast_loop s message [] sentCount = (s, sentCount)"
| "broadcast_loop s message (peerId # rest) sentCount =
     (case sendToPeer s peerId message of
        (s', ok) \<Rightarrow> broadcast_loop s' message rest (if ok then sentCount + 1 else sentCount))"

definition broadcastMessage :: "bluetooth_service \<Rightarrow> string \<Rightarrow> bluetooth_service \<times> nat" where
  "broadcastMessage s message = broadcast_loop s message (map fst (peers s)) 0"

definition getConnectedPeers :: "bluetooth_service \<Rightarrow> peer_info list" where
  "getConnectedPeers s = map snd (peers s)"

definition getMyNickname :: "bluetooth_service \<Rightarrow> string" where
  "getMyNickname s =
     (case stored_nickname s of
        Some n \<Rightarrow> (if n = [] then ''Anonyme'' else n)
      | None \<Rightarrow> ''Anonyme'')"

definition sendHandshake :: "bluetooth_service \<Rightarrow> string \<Rightarrow> bluetooth_service" where
  "sendHandshake s peerId =
     fst (sendToPeer s peerId
            (JSON_stringify (JObject
               [(''type'', JString ''handshake''),
                (''from'', JString (myId s)),
                (''nickname'', JString (getMyNickname s)),
                (''timestamp'', JNumber (now s))])))"

subsection \<open>Peer lifecycle\<close>

text \<open>\<open>String.prototype.slice(-4)\<close>: the last four code units, or the whole string.\<close>

definition slice_last4 :: "string \<Rightarrow> string" where
  "slice_last4 s = drop (length s - 4) s"

definition onPeerConnected :: "bluetooth_service \<Rightarrow> string \<Rightarrow> bluetooth_service" where
  "onPeerConnected s peerId =
     (let discoveredPeer = discoveredPeers s peerId;
          name = (case discoveredPeer of
                    Some d \<Rightarrow> (if disc_name d = [] then ''Peer-'' @ slice_last4 peerId
                               else disc_name d)
                  | None \<Rightarrow> ''Peer-'' @ slice_last4 peerId);
          rssi = (case discoveredPeer of
                    Some d \<Rightarrow> (if disc_rssi d = 0 then - 50 else disc_rssi d)
                  | None \<Rightarrow> - 50);
          peer = \<lparr>peer_id = peerId, peer_name = name, peer_connected = True,
                  connectedAt = now s, peer_rssi = rssi, lastSeen = now s\<rparr>;
          s1 = s\<lparr>peers := AList.update peerId peer (peers s)\<rparr>;
          s2 = notify s1 (OnPeerConnected peerId name)
      in sendHandshake s2 peerId)"

definition onPeerDisconnected :: "bluetooth_service \<Rightarrow> string \<Rightarrow> bluetooth_service" where
  "onPeerDisconnected s peerId =
     notify (s\<lparr>peers := AList.delete peerId (peers s),
               connections := (connections s)(peerId := None),
               dataChannels := (dataChannels s)(peerId := None)\<rparr>)
            (OnPeerDisconnected peerId)"

text \<open>
  \<open>handleIncomingMessage(peerId, messageData)\<close>: a text that does not parse is logged; for
  any other, \<open>lastSeen\<close> of the peer is set when the table has the peer, and the message
  goes to the handler of its \<open>type\<close>. The peer objects are changed in place, so the order
  of the table stays.
\<close>

definition touch_peer :: "bluetooth_service \<Rightarrow> string \<Rightarrow> bluetooth_service" where
  "touch_peer s peerId =
     (case map_of (peers s) peerId of
        Some peer \<Rightarrow> s\<lparr>peers := AList.update peerId (peer\<lparr>lastSeen := now s\<rparr>) (peers s)\<rparr>
      | None \<Rightarrow> s)"

definition handleHandshake :: "bluetooth_service \<Rightarrow> string \<Rightarrow> string \<Rightarrow> bluetooth_service" where
  "handleHandshake s peerId nickname =
     notify (case map_of (peers s) peerId of
               Some peer \<Rightarrow>
                 s\<lparr>peers := AList.update peerId (peer\<lparr>peer_name := nickname\<rparr>) (peers s)\<rparr>
             | None \<Rightarrow> s)
            (OnHandshakeReceived peerId nickname)"

fun handleIncomingMessage :: "bluetooth_service \<Rightarrow> string \<Rightarrow> incoming \<Rightarrow> bluetooth_service" where
  "handleIncomingMessage s peerId Unparsable = s"
| "handleIncomingMessage s peerId (Handshake nickname) =
     handleHandshake (touch_peer s peerId) peerId nickname"
| "handleIncomingMessage s peerId (Chat message) =
     notify (touch_peer s peerId) (OnMessageReceived peerId message)"
| "handleIncomingMessage s peerId (Private message) =
     notify (touch_peer s peerId) (OnPrivateMessageReceived peerId message)"
| "handleIncomingMessage s peerId (Announcement message) =
     notify (touch_peer s peerId) (OnAnnouncementReceived peerId message)"
| "handleIncomingMessage s peerId OtherMessage = touch_peer s peerId"

text \<open>
  \<open>disconnectFromPeer\<close> closes the platform connection, when there is one, and then runs
  \<open>onPeerDisconnected\<close>; \<open>disconnectAll\<close> closes every connection and clears the three maps.
\<close>

definition disconnectFromPeer :: "bluetooth_service \<Rightarrow> string \<Rightarrow> bluetooth_service" where
  "disconnectFromPeer s peerId = onPeerDisconnected s peerId"

definition disconnectAll :: "bluetooth_service \<Rightarrow> bluetooth_service" where
  "disconnectAll s = s\<lparr>peers := [], connections := Map.empty, dataChannels := Map.empty\<rparr>"

subsection \<open>Signaling and negotiation\<close>

definition sendSignalingMessage :: "bluetooth_service \<Rightarrow> signaling_message \<Rightarrow> bluetooth_service" where
  "sendSignalingMessage s message =
     (if signalingWs s = WsOpened then s\<lparr>signalingSent := signalingSent s @ [message]\<rparr> else s)"

definition joinSignalingRoom :: "bluetooth_service \<Rightarrow> bluetooth_service" where
  "joinSignalingRoom s =
     (if signalingWs s = WsOpened
      then s\<lparr>signalingSent := signalingSent s @ [Join (roomId s) (myId s)]\<rparr> else s)"

text \<open>
  \<open>initiateConnectionToPeer(peerId)\<close> up to its first \<open>await\<close>: nothing when the table
  has an entry; otherwise a new connection is stored, a data channel is created on it and
  set up for the peer, and the method is suspended at \<open>createOffer\<close>. The constructor and
  \<open>createDataChannel\<close> are called with constant arguments and are taken not to throw.
\<close>

definition initiateConnectionToPeer :: "bluetooth_service \<Rightarrow> string \<Rightarrow> bluetooth_service" where
  "initiateConnectionToPeer s peerId =
     (if connections s peerId \<noteq> None then s
      else s\<lparr>connections := (connections s)(peerId \<mapsto> nextConnection s),
             nextConnection := Suc (nextConnection s),
             createdChannels := createdChannels s @ [(nextConnection s, peerId)],
             tasks := tasks s @ [OfferTask peerId]\<rparr>)"

definition connectToPeer :: "bluetooth_service \<Rightarrow> string \<Rightarrow> bluetooth_service" where
  "connectToPeer s peerId = initiateConnectionToPeer s peerId"

text \<open>\<open>handleIncomingOffer\<close> up to its first \<open>await\<close>.\<close>

definition handleIncomingOffer :: "bluetooth_service \<Rightarrow> string \<Rightarrow> bluetooth_service" where
  "handleIncomingOffer s peerId =
     s\<lparr>connections := (connections s)(peerId \<mapsto> nextConnection s),
       nextConnection := Suc (nextConnection s),
       tasks := tasks s @ [AnswerTask peerId True]\<rparr>"

text \<open>
  \<open>handleWebRTCSignaling(peerId, message)\<close> up to its first \<open>await\<close>. With a connection,
  an answer or a candidate is handed to the platform object and changes nothing in the
  service, whether the platform call throws (the \<open>catch\<close> logs) or not.
\<close>

definition handleWebRTCSignaling :: "bluetooth_service \<Rightarrow> string \<Rightarrow> signaling_message \<Rightarrow> bluetooth_service" where
  "handleWebRTCSignaling s peerId message =
     (case connections s peerId of
        None \<Rightarrow> (case message of
                   Offer _ _ _ \<Rightarrow> handleIncomingOffer s peerId
                 | _ \<Rightarrow> s)
      | Some connection \<Rightarrow>
          (case message of
             Offer _ _ _ \<Rightarrow> s\<lparr>tasks := tasks s @ [AnswerTask peerId False]\<rparr>
           | _ \<Rightarrow> s))"

text \<open>
  The continuation of a suspended method once the platform calls have settled:
  \<open>Some data\<close> is the description they produced, \<open>None\<close> is a rejection, which runs the
  method's \<open>catch\<close>.
\<close>

fun resume :: "bluetooth_service \<Rightarrow> task \<Rightarrow> string option \<Rightarrow> bluetooth_service" where
  "resume s (OfferTask peerId) (Some offer) =
     sendSignalingMessage s (Offer (myId s) peerId offer)"
| "resume s (OfferTask peerId) None = s\<lparr>connections := (connections s)(peerId := None)\<rparr>"
| "resume s (AnswerTask peerId del) (Some answer) =
     sendSignalingMessage s (Answer (myId s) peerId answer)"
| "resume s (AnswerTask peerId del) None =
     (if del then s\<lparr>connections := (connections s)(peerId := None)\<rparr> else s)"

text \<open>
  The \<open>onicecandidate\<close> handler that \<open>setupConnectionHandlers\<close> registers for a peer;
  \<open>None\<close> is an event without a candidate.
\<close>

definition onicecandidate :: "bluetooth_service \<Rightarrow> string \<Rightarrow> string option \<Rightarrow> bluetooth_service" where
  "onicecandidate s peerId candidate =
     (case candidate of
        Some c \<Rightarrow> sendSignalingMessage s (IceCandidate (myId s) peerId c)
      | None \<Rightarrow> s)"

text \<open>\<open>message.peers.forEach\<close> of the \<open>room-joined\<close> case.\<close>

fun initiate_each :: "bluetooth_service \<Rightarrow> string list \<Rightarrow> bluetooth_service" where
  "initiate_each s [] = s"
| "initiate_each s (peerId # rest) =
     initiate_each (if peerId \<noteq> myId s then initiateConnectionToPeer s peerId else s) rest"

fun handleSignalingMessage :: "bluetooth_service \<Rightarrow> signaling_message \<Rightarrow> bluetooth_service" where
  "handleSignalingMessage s (RoomJoined ps) = initiate_each s ps"
| "handleSignalingMessage s (PeerJoined peerId) =
     (if peerId \<noteq> myId s then initiateConnectionToPeer s peerId else s)"
| "handleSignalingMessage s (PeerLeft peerId) = onPeerDisconnected s peerId"
| "handleSignalingMessage s (Offer peerId target d) =
     handleWebRTCSignaling s peerId (Offer peerId target d)"
| "handleSignalingMessage s (Answer peerId target d) =
     handleWebRTCSignaling s peerId (Answer peerId target d)"
| "handleSignalingMessage s (IceCandidate peerId target d) =
     handleWebRTCSignaling s peerId (IceCandidate peerId target d)"
| "handleSignalingMessage s (Join room peerId) = s"
| "handleSignalingMessage s (OtherType t) = s"

subsection \<open>Discovery\<close>

definition simulatedPeers :: "(string \<times> string \<times> int) list" where
  "simulatedPeers =
     [(''peer-001'', ''Alice'', - 45), (''peer-002'', ''Bob'', - 67), (''peer-003'', ''Carol'', - 89)]"

text \<open>
  \<open>simulatePeerDiscovery()\<close> registers one timer per simulated peer; the callback of the
  timer with index \<open>i\<close> is \<open>discover_simulated s i\<close>.
\<close>

definition simulatePeerDiscovery :: "bluetooth_service \<Rightarrow> bluetooth_service" where
  "simulatePeerDiscovery s =
     s\<lparr>timers := timers s @ map DiscoverTimer [0 ..< length simulatedPeers]\<rparr>"

definition discover_simulated :: "bluetooth_service \<Rightarrow> nat \<Rightarrow> bluetooth_service" where
  "discover_simulated s i =
     (if i < length simulatedPeers
      then (case simulatedPeers ! i of
              (pid, name, rssi) \<Rightarrow>
                (let s1 = s\<lparr>discoveredPeers := (discoveredPeers s)(pid \<mapsto>
                             \<lparr>disc_id = pid, disc_name = name, disc_rssi = rssi,
                              discovered = now s, disc_connected = False\<rparr>)\<rparr>;
                     s2 = notify s1 (OnPeerDiscovered pid name rssi)
                 in s2\<lparr>timers := timers s2 @ [AutoConnectTimer pid]\<rparr>))
      else s)"

definition startPeerDiscovery :: "bluetooth_service \<Rightarrow> bluetooth_service" where
  "startPeerDiscovery s = s\<lparr>scanIntervals := Suc (scanIntervals s)\<rparr>"

definition startScanning :: "bluetooth_service \<Rightarrow> bluetooth_service" where
  "startScanning s =
     (if isScanning s then s
      else startPeerDiscovery (notify (s\<lparr>isScanning := True\<rparr>) OnScanningStarted))"

definition stopScanning :: "bluetooth_service \<Rightarrow> bluetooth_service" where
  "stopScanning s = notify (s\<lparr>isScanning := False\<rparr>) OnScanningStopped"

definition startAdvertising :: "bluetooth_service \<Rightarrow> bluetooth_service" where
  "startAdvertising s = (if isAdvertising s then s else s\<lparr>isAdvertising := True\<rparr>)"

definition stopAdvertising :: "bluetooth_service \<Rightarrow> bluetooth_service" where
  "stopAdvertising s = s\<lparr>isAdvertising := False\<rparr>"

definition setMyNickname :: "bluetooth_service \<Rightarrow> string \<Rightarrow> bluetooth_service" where
  "setMyNickname s nickname = s\<lparr>stored_nickname := Some nickname\<rparr>"

text \<open>The callback of the interval of \<open>startPeerDiscovery\<close>.\<close>

definition scan_interval :: "bluetooth_service \<Rightarrow> bluetooth_service" where
  "scan_interval s = (if isScanning s then simulatePeerDiscovery s else s)"

text \<open>
  \<open>setupSignaling()\<close>: \<open>ws_throws\<close> says whether \<open>new WebSocket(wsUrl)\<close> throws, which runs
  the \<open>catch\<close> and its fallback timer; otherwise the new socket becomes \<open>this.signalingWs\<close>.
\<close>

definition setupSignaling :: "bluetooth_service \<Rightarrow> bool \<Rightarrow> bluetooth_service" where
  "setupSignaling s ws_throws =
     (if ws_throws then s\<lparr>timers := timers s @ [FallbackTimer]\<rparr>
      else s\<lparr>sockets := sockets s @ [WsConnecting]\<rparr>)"

text \<open>
  \<open>initWithFallback()\<close> from the point where \<open>checkSignalingConnectivity()\<close> has resolved
  with \<open>has_signaling\<close>.
\<close>

definition initWithFallback :: "bluetooth_service \<Rightarrow> bool \<Rightarrow> bool \<Rightarrow> bluetooth_service" where
  "initWithFallback s has_signaling ws_throws =
     (let s1 = s\<lparr>hasSignaling := Some has_signaling\<rparr>
      in if has_signaling then setupSignaling s1 ws_throws
         else s1\<lparr>timers := timers s1 @ [FallbackTimer]\<rparr>)"

text \<open>
  The \<open>onopen\<close> and \<open>onclose\<close> handlers that \<open>setupSignaling\<close> registers on the socket with
  index \<open>i\<close>.
\<close>

definition ws_onopen :: "bluetooth_service \<Rightarrow> nat \<Rightarrow> bluetooth_service" where
  "ws_onopen s i = joinSignalingRoom (s\<lparr>sockets := (sockets s)[i := WsOpened]\<rparr>)"

definition ws_onclose :: "bluetooth_service \<Rightarrow> nat \<Rightarrow> bluetooth_service" where
  "ws_onclose s i =
     s\<lparr>sockets := (sockets s)[i := WsClosed], timers := timers s @ [FallbackTimer]\<rparr>"

subsection \<open>The event loop\<close>

text \<open>
  The service is single-threaded and event-driven: every change of its state is the
  reaction to one event, a callback of the platform or a call of one of its methods from
  outside the class. The calls are those that the rest of the repository makes
  (\<open>ChatService\<close>, the UI controller and \<open>test.js\<close>: \<open>init\<close>, \<open>simulatePeerDiscovery\<close>,
  \<open>setDelegate\<close>, \<open>setMyNickname\<close>, \<open>startScanning\<close>, \<open>startAdvertising\<close>, \<open>sendToPeer\<close>,
  \<open>broadcastMessage\<close>, \<open>disconnectAll\<close>) and their counterparts \<open>stopScanning\<close>,
  \<open>stopAdvertising\<close>, \<open>connectToPeer\<close> and \<open>disconnectFromPeer\<close>.
  \<open>Tick\<close> is the passage of time. \<open>ProbeResolved\<close> is the promise of
  \<open>checkSignalingConnectivity\<close> resolving for one pending run of \<open>init\<close>. The socket events
  carry the index of the socket they happen on. A timer or a suspended method runs when
  the platform fires it, at any later point. Events of the platform that the service has
  not registered for (a probe or a timer that is not pending, an event of a socket that
  does not exist or is not in the state for it) change nothing. \<open>ChannelOpen\<close> is the
  \<open>onopen\<close> of a channel that \<open>setupDataChannel\<close> has set up for the peer, created here or
  announced by \<open>ondatachannel\<close>; it carries what the platform will take on that channel.
  \<open>ChannelReadyState\<close> is a change of the \<open>readyState\<close> of the channel in the table.
\<close>

datatype connection_state = ConnNew | ConnConnecting | ConnConnected | ConnDisconnected | ConnFailed | ConnClosed

datatype event =
    Tick nat
  | Init
  | ProbeResolved bool bool
  | WsOpen nat
  | WsMessage nat signaling_message
  | WsClose nat
  | TimerFired timer
  | IntervalFired
  | TaskSettled task "string option"
  | ConnectionStateChange string connection_state
  | LocalCandidate string "string option"
  | ChannelOpen string "string \<Rightarrow> bool"
  | ChannelReadyState string ready_state
  | ChannelMessage string incoming
  | ChannelClose string
  | SetDelegate "delegate_event \<Rightarrow> bool"
  | SetMyNickname string
  | StartScanning
  | StopScanning
  | StartAdvertising
  | StopAdvertising
  | SimulatePeerDiscovery
  | ConnectToPeer string
  | DisconnectFromPeer string
  | DisconnectAll
  | SendToPeer string string
  | BroadcastMessage string

fun fire :: "bluetooth_service \<Rightarrow> timer \<Rightarrow> bluetooth_service" where
  "fire s FallbackTimer = simulatePeerDiscovery s"
| "fire s (DiscoverTimer i) = discover_simulated s i"
| "fire s (AutoConnectTimer pid) = onPeerConnected s pid"

fun step :: "bluetooth_service \<Rightarrow> event \<Rightarrow> bluetooth_service" where
  "step s (Tick ms) = s\<lparr>now := now s + ms\<rparr>"
| "step s Init = init s"
| "step s (ProbeResolved has_signaling ws_throws) =
     (if 0 < pendingProbes s
      then initWithFallback (s\<lparr>pendingProbes := pendingProbes s - 1\<rparr>) has_signaling ws_throws
      else s)"
| "step s (WsOpen i) =
     (if i < length (sockets s) \<and> sockets s ! i = WsConnecting then ws_onopen s i else s)"
| "step s (WsMessage i m) =
     (if i < length (sockets s) \<and> sockets s ! i = WsOpened
      then handleSignalingMessage s m else s)"
| "step s (WsClose i) =
     (if i < length (sockets s) \<and> (sockets s ! i = WsConnecting \<or> sockets s ! i = WsOpened)
      then ws_onclose s i else s)"
| "step s (TimerFired t) =
     (if t \<in> set (timers s) then fire (s\<lparr>timers := remove1 t (timers s)\<rparr>) t else s)"
| "step s IntervalFired = (if 0 < scanIntervals s then scan_interval s else s)"
| "step s (TaskSettled t r) =
     (if t \<in> set (tasks s) then resume (s\<lparr>tasks := remove1 t (tasks s)\<rparr>) t r else s)"
| "step s (ConnectionStateChange peerId st) =
     (if st = ConnConnected then onPeerConnected s peerId
      else if st = ConnDisconnected \<or> st = ConnFailed then onPeerDisconnected s peerId
      else s)"
| "step s (ChannelOpen peerId acc) =
     s\<lparr>dataChannels := (dataChannels s)(peerId \<mapsto>
          \<lparr>readyState = Open, accepts = acc, sent = []\<rparr>)\<rparr>"
| "step s (ChannelReadyState peerId rs) =
     (case dataChannels s peerId of
        Some ch \<Rightarrow> s\<lparr>dataChannels := (dataChannels s)(peerId \<mapsto> ch\<lparr>readyState := rs\<rparr>)\<rparr>
      | None \<Rightarrow> s)"
| "step s (ChannelClose peerId) = s\<lparr>dataChannels := (dataChannels s)(peerId := None)\<rparr>"
| "step s (LocalCandidate peerId candidate) = onicecandidate s peerId candidate"
| "step s (ChannelMessage peerId m) = handleIncomingMessage s peerId m"
| "step s (SetDelegate delegate) = setDelegate s delegate"
| "step s (SetMyNickname nickname) = setMyNickname s nickname"
| "step s StartScanning = startScanning s"
| "step s StopScanning = stopScanning s"
| "step s StartAdvertising = startAdvertising s"
| "step s StopAdvertising = stopAdvertising s"
| "step s SimulatePeerDiscovery = simulatePeerDiscovery s"
| "step s (ConnectToPeer peerId) = connectToPeer s peerId"
| "step s (DisconnectFromPeer peerId) = disconnectFromPeer s peerId"
| "step s DisconnectAll = disconnectAll s"
| "step s (SendToPeer peerId m) = fst (sendToPeer s peerId m)"
| "step s (BroadcastMessage m) = fst (broadcastMessage s m)"

definition run :: "bluetooth_service \<Rightarrow> event list \<Rightarrow> bluetooth_service" where
  "run s es = foldl step s es"

subsection \<open>Notions used in the properties\<close>

text \<open>
  The events that take the connection of peer \<open>x\<close> out of the table: a \<open>peer-left\<close>
  message for \<open>x\<close>, the transport of \<open>x\<close> reporting \<open>disconnected\<close> or \<open>failed\<close>,
  \<open>disconnectFromPeer(x)\<close>, \<open>disconnectAll()\<close>, and a rejection of the platform calls of a
  method whose \<open>catch\<close> deletes the entry.
\<close>

fun releases :: "string \<Rightarrow> event \<Rightarrow> bool" where
  "releases x (WsMessage i (PeerLeft p)) = (p = x)"
| "releases x (ConnectionStateChange p st) = (p = x \<and> (st = ConnDisconnected \<or> st = ConnFailed))"
| "releases x (DisconnectFromPeer p) = (p = x)"
| "releases x DisconnectAll = True"
| "releases x (TaskSettled (OfferTask p) None) = (p = x)"
| "releases x (TaskSettled (AnswerTask p del) None) = (p = x \<and> del)"
| "releases x e = False"

text \<open>
  The events after which the service starts simulated discovery: the probe resolved with
  \<open>false\<close>, or with \<open>true\<close> and a socket constructor that throws; a signaling socket
  closed; scanning was started; \<open>simulatePeerDiscovery()\<close> was called from outside.
  \<open>quiet\<close> holds of a state in which simulated discovery has neither been scheduled nor
  run: no timer is pending, \<open>discoveredPeers\<close> is empty and the delegate has seen no
  \<open>onPeerDiscovered\<close>.
\<close>

fun fallback_cause :: "event \<Rightarrow> bool" where
  "fallback_cause (ProbeResolved has_signaling ws_throws) = (ws_throws \<or> \<not> has_signaling)"
| "fallback_cause (WsClose i) = True"
| "fallback_cause StartScanning = True"
| "fallback_cause SimulatePeerDiscovery = True"
| "fallback_cause e = False"

fun is_discovery :: "delegate_event \<Rightarrow> bool" where
  "is_discovery (OnPeerDiscovered p n r) = True"
| "is_discovery e = False"

definition quiet :: "bluetooth_service \<Rightarrow> bool" where
  "quiet s = (timers s = [] \<and> discoveredPeers s = Map.empty
              \<and> filter is_discovery (delegate_log s) = [])"

section \<open>CryptoService (crypto.js): message encryption\<close>

subsection \<open>Strings, byte arrays and the platform's text codec\<close>

type_synonym js_string = "16 word list"
type_synonym bytes = "8 word list"

text \<open>
  \<open>TextEncoder.encode\<close> takes a string of UTF-16 code units, reads it as scalar values
  (an unpaired surrogate becomes U+FFFD) and writes their UTF-8 bytes.
\<close>

definition is_lead :: "16 word \<Rightarrow> bool" where
  "is_lead u = (0xD800 \<le> unat u \<and> unat u \<le> 0xDBFF)"

definition is_trail :: "16 word \<Rightarrow> bool" where
  "is_trail u = (0xDC00 \<le> unat u \<and> unat u \<le> 0xDFFF)"

fun to_scalar_values :: "js_string \<Rightarrow> nat list" where
  "to_scalar_values [] = []"
| "to_scalar_values [u] = (if is_lead u \<or> is_trail u then [0xFFFD] else [unat u])"
| "to_scalar_values (u # v # rest) =
     (if is_lead u \<and> is_trail v
      then (0x10000 + (unat u - 0xD800) * 0x400 + (unat v - 0xDC00)) # to_scalar_values rest
      else if is_lead u \<or> is_trail u then 0xFFFD # to_scalar_values (v # rest)
      else unat u # to_scalar_values (v # rest))"

definition utf8_encode_code_point :: "nat \<Rightarrow> bytes" where
  "utf8_encode_code_point c =
     (if c < 0x80 then [of_nat c]
      else if c < 0x800 then [of_nat (0xC0 + c div 0x40), of_nat (0x80 + c mod 0x40)]
      else if c < 0x10000
        then [of_nat (0xE0 + c div 0x1000), of_nat (0x80 + c div 0x40 mod 0x40),
              of_nat (0x80 + c mod 0x40)]
      else [of_nat (0xF0 + c div 0x40000), of_nat (0x80 + c div 0x1000 mod 0x40),
            of_nat (0x80 + c div 0x40 mod 0x40), of_nat (0x80 + c mod 0x40)])"

definition TextEncoder_encode :: "js_string \<Rightarrow> bytes" where
  "TextEncoder_encode s = concat (map utf8_encode_code_point (to_scalar_values s))"

text \<open>
  \<open>TextDecoder.decode\<close> (encoding UTF-8, \<open>fatal\<close> and \<open>ignoreBOM\<close> at their default
  \<open>false\<close>) runs the UTF-8 decoder of the Encoding Standard over the bytes: \<open>utf8_lead\<close> is
  its step for a byte read when no byte is pending, \<open>utf8_handler\<close> is the handler, which
  on a byte outside the expected range emits U+FFFD and reads that byte again as a first
  byte. A sequence cut off by the end of the input is one more U+FFFD. A first code point
  U+FEFF is dropped, and the code points are written as UTF-16 code units.
\<close>

record utf8_decoder =
  code_point :: nat
  bytes_seen :: nat
  bytes_needed :: nat
  lower_boundary :: nat
  upper_boundary :: nat

definition utf8_initial :: utf8_decoder where
  "utf8_initial = \<lparr>code_point = 0, bytes_seen = 0, bytes_needed = 0,
                    lower_boundary = 0x80, upper_boundary = 0xBF\<rparr>"

definition utf8_lead :: "nat \<Rightarrow> nat list \<times> utf8_decoder" where
  "utf8_lead b =
     (if b \<le> 0x7F then ([b], utf8_initial)
      else if 0xC2 \<le> b \<and> b \<le> 0xDF
        then ([], utf8_initial\<lparr>bytes_needed := 1, code_point := b mod 0x20\<rparr>)
      else if 0xE0 \<le> b \<and> b \<le> 0xEF
        then ([], utf8_initial\<lparr>bytes_needed := 2, code_point := b mod 0x10,
                   lower_boundary := (if b = 0xE0 then 0xA0 else 0x80),
                   upper_boundary := (if b = 0xED then 0x9F else 0xBF)\<rparr>)
      else if 0xF0 \<le> b \<and> b \<le> 0xF4
        then ([], utf8_initial\<lparr>bytes_needed := 3, code_point := b mod 0x08,
                   lower_boundary := (if b = 0xF0 then 0x90 else 0x80),
                   upper_boundary := (if b = 0xF4 then 0x8F else 0xBF)\<rparr>)
      else ([0xFFFD], utf8_initial))"

definition utf8_handler :: "utf8_decoder \<Rightarrow> nat \<Rightarrow> nat list \<times> utf8_decoder" where
  "utf8_handler d b =
     (if bytes_needed d = 0 then utf8_lead b
      else if b < lower_boundary d \<or> upper_boundary d < b
        then (case utf8_lead b of (out, d') \<Rightarrow> (0xFFFD # out, d'))
      else (let cp = code_point d * 0x40 + b mod 0x40; seen = bytes_seen d + 1
            in if seen = bytes_needed d then ([cp], utf8_initial)
               else ([], d\<lparr>code_point := cp, bytes_seen := seen,
                           lower_boundary := 0x80, upper_boundary := 0xBF\<rparr>)))"

fun utf8_decode_from :: "utf8_decoder \<Rightarrow> bytes \<Rightarrow> nat list" where
  "utf8_decode_from d [] = (if bytes_needed d = 0 then [] else [0xFFFD])"
| "utf8_decode_from d (b # bs) =
     (case utf8_handler d (unat b) of (out, d') \<Rightarrow> out @ utf8_decode_from d' bs)"

definition utf16_units :: "nat \<Rightarrow> js_string" where
  "utf16_units c =
     (if c < 0x10000 then [of_nat c]
      else [of_nat (0xD800 + (c - 0x10000) div 0x400), of_nat (0xDC00 + (c - 0x10000) mod 0x400)])"

definition drop_bom :: "nat list \<Rightarrow> nat list" where
  "drop_bom cs = (case cs of [] \<Rightarrow> [] | c # rest \<Rightarrow> if c = 0xFEFF then rest else cs)"

definition TextDecoder_decode :: "bytes \<Rightarrow> js_string" where
  "TextDecoder_decode bs = concat (map utf16_units (drop_bom (utf8_decode_from utf8_initial bs)))"

text \<open>
  The strings on which \<open>encode\<close> loses nothing: every surrogate is part of a pair.
  \<open>starts_with_bom\<close> holds of a string whose first code unit is U+FEFF.
\<close>

fun well_formed :: "js_string \<Rightarrow> bool" where
  "well_formed [] = True"
| "well_formed [u] = (\<not> is_lead u \<and> \<not> is_trail u)"
| "well_formed (u # v # rest) =
     (if is_lead u \<and> is_trail v then well_formed rest
      else \<not> is_lead u \<and> \<not> is_trail u \<and> well_formed (v # rest))"

definition starts_with_bom :: "js_string \<Rightarrow> bool" where
  "starts_with_bom s = (case s of [] \<Rightarrow> False | u # _ \<Rightarrow> u = 0xFEFF)"

text \<open>The Unicode scalar values, and the value of a surrogate pair.\<close>

definition scalar :: "nat \<Rightarrow> bool" where
  "scalar c = (c < 0x110000 \<and> \<not> (0xD800 \<le> c \<and> c \<le> 0xDFFF))"

definition pair_value :: "16 word \<Rightarrow> 16 word \<Rightarrow> nat" where
  "pair_value u v = 0x10000 + (unat u - 0xD800) * 0x400 + (unat v - 0xDC00)"

subsection \<open>The platform's AES-GCM\<close>

text \<open>
  \<open>crypto.subtle.encrypt\<close> and \<open>crypto.subtle.decrypt\<close> with \<open>{name: "AES-GCM", iv}\<close> are
  functions of the platform, taken as a parameter: key, IV and data give the result, or
  \<open>None\<close> when the promise is rejected (as \<open>decrypt\<close> does for a ciphertext whose tag does
  not verify). \<open>sound_cipher\<close> is what the Web Cryptography API promises of them: what was
  encrypted under a key and an IV decrypts to the same data under that key and IV.
\<close>

record 'k aes_gcm =
  gcm_encrypt :: "'k \<Rightarrow> bytes \<Rightarrow> bytes \<Rightarrow> bytes option"
  gcm_decrypt :: "'k \<Rightarrow> bytes \<Rightarrow> bytes \<Rightarrow> bytes option"

definition sound_cipher :: "'k aes_gcm \<Rightarrow> bool" where
  "sound_cipher P =
     (\<forall>k iv d c. gcm_encrypt P k iv d = Some c \<longrightarrow> gcm_decrypt P k iv c = Some d)"

text \<open>
  A stand-in cipher with which the framing code is evaluated on concrete inputs: it adds
  the key byte to every byte and appends one check byte. Nothing is claimed of its
  secrecy.
\<close>

definition shift_cipher :: "8 word aes_gcm" where
  "shift_cipher =
     \<lparr>gcm_encrypt = (\<lambda>k iv d. Some (map (\<lambda>b. b + k) d @ [k + sum_list iv])),
      gcm_decrypt = (\<lambda>k iv c.
         if c \<noteq> [] \<and> last c = k + sum_list iv
         then Some (map (\<lambda>b. b - k) (butlast c)) else None)\<rparr>"

subsection \<open>\<open>encryptMessage\<close> and \<open>decryptMessage\<close>\<close>

datatype js_error = TypeError | OperationError | Error string

text \<open>
  \<open>encryptMessage(message, key)\<close>; \<open>iv\<close> is what
  \<open>crypto.getRandomValues(new Uint8Array(12))\<close> returns, twelve bytes. The \<open>catch\<close> logs
  and rethrows.
\<close>

definition encryptMessage :: "'k aes_gcm \<Rightarrow> js_string \<Rightarrow> 'k \<Rightarrow> bytes \<Rightarrow> js_error + bytes" where
  "encryptMessage P message key iv =
     (let dat = TextEncoder_encode message
      in case gcm_encrypt P key iv dat of
           None \<Rightarrow> Inl OperationError
         | Some encrypted \<Rightarrow> Inr (iv @ encrypted))"

text \<open>\<open>decryptMessage(encryptedData, key)\<close>: \<open>slice(0, 12)\<close> is the IV, \<open>slice(12)\<close> the rest.\<close>

definition decryptMessage :: "'k aes_gcm \<Rightarrow> bytes \<Rightarrow> 'k \<Rightarrow> js_error + js_string" where
  "decryptMessage P encryptedData key =
     (let iv = take 12 encryptedData;
          encrypted = drop 12 encryptedData
      in case gcm_decrypt P key iv encrypted of
           None \<Rightarrow> Inl OperationError
         | Some decrypted \<Rightarrow> Inr (TextDecoder_decode decrypted))"

section \<open>CrossTabService (cross-tab.js): leader election\<close>

text \<open>
  The table of registered tabs is the object stored under \<open>bitchat-tabs\<close>: one property
  per tab id. It is modelled as the list of its properties; \<open>Object.keys\<close> gives the
  property names. \<open>Array.prototype.sort()\<close> without a comparator orders strings by their
  code units, lexicographically: the order of \<^typ>\<open>string\<close> here (characters by their
  code, lists lexicographically).
\<close>

record tab_info =
  tab_id :: string
  tab_created :: nat
  tab_lastSeen :: nat
  tab_nickname :: string

type_synonym tabs_table = "(string \<times> tab_info) list"

datatype leader_note = OnBecameLeader | OnLostLeader

record cross_tab_service =
  myTabId :: string
  isLeader :: bool
  leader_notes :: "leader_note list"

definition Object_keys :: "tabs_table \<Rightarrow> string list" where
  "Object_keys tabs = map fst tabs"

text \<open>
  \<open>electLeader()\<close>, with \<open>tabs\<close> the table that \<open>getActiveTabs()\<close> reads;
  \<open>leader_notes\<close> records the \<open>notifyDelegates\<close> calls.
\<close>

definition electLeader :: "cross_tab_service \<Rightarrow> tabs_table \<Rightarrow> cross_tab_service" where
  "electLeader s tabs =
     (let tabIds = sort (Object_keys tabs);
          wasLeader = isLeader s;
          leader = (case tabIds of [] \<Rightarrow> False | first # _ \<Rightarrow> first = myTabId s);
          s1 = s\<lparr>isLeader := leader\<rparr>
      in if leader \<and> \<not> wasLeader then s1\<lparr>leader_notes := leader_notes s1 @ [OnBecameLeader]\<rparr>
         else if \<not> leader \<and> wasLeader then s1\<lparr>leader_notes := leader_notes s1 @ [OnLostLeader]\<rparr>
         else s1)"

section \<open>ChatService (chat-service.js)\<close>

text \<open>
  A \<open>Date\<close> object as the code uses it: the clock reading in milliseconds and its
  \<open>toISOString()\<close> rendering, both supplied by the platform.
\<close>

record js_date =
  epoch_ms :: nat
  iso_string :: string

text \<open>
  A message as it is kept in \<open>this.messages\<close> and \<open>this.privateMessages\<close>: the object
  literals of \<open>sendChannelMessage\<close>, \<open>sendPrivateMessage\<close> and \<open>addSystemMessage\<close>. A field
  that a literal leaves out is \<open>None\<close>.
\<close>

record chat_message =
  msg_id :: string
  msg_type :: string
  msg_channel :: "string option"
  msg_from :: "string option"
  msg_to :: "string option"
  msg_content :: string
  msg_timestamp :: js_date
  msg_own :: "bool option"

text \<open>The calls the service makes on its delegate (the UI controller), in order.\<close>

datatype delegate_call =
    OnMessageAdded string chat_message
  | OnPrivateMessageAdded string chat_message

text \<open>
  The fields of \<open>ChatService\<close> that the modelled methods read or write.
  \<open>has_delegate\<close> stands for the tests \<open>this.delegate && this.delegate.onMessageAdded\<close> and
  \<open>this.delegate && this.delegate.onPrivateMessageAdded\<close>.
\<close>

record chat_service =
  bluetoothService :: bluetooth_service
  messages :: "string \<rightharpoonup> chat_message list"
  privateMessages :: "string \<rightharpoonup> chat_message list"
  currentChannel :: string
  myNickname :: string
  has_delegate :: bool
  delegate_calls :: "delegate_call list"

text \<open>\<open>getMessages(channel)\<close>: \<open>this.messages.get(channel) || []\<close>.\<close>

definition getMessages :: "chat_service \<Rightarrow> string \<Rightarrow> chat_message list" where
  "getMessages s channel = (case messages s channel of None \<Rightarrow> [] | Some ms \<Rightarrow> ms)"

text \<open>
  \<open>Array.prototype.splice(0, n)\<close> on the stored array: the first \<open>n\<close> elements are removed.
\<close>

definition splice0 :: "nat \<Rightarrow> 'a list \<Rightarrow> 'a list" where
  "splice0 n xs = drop n xs"

text \<open>
  \<open>addMessage(channel, message)\<close>: create the channel's list when it is missing, push the
  message, cut the history down to 1000 entries, notify the delegate.
\<close>

definition addMessage :: "chat_service \<Rightarrow> string \<Rightarrow> chat_message \<Rightarrow> chat_service" where
  "addMessage s channel message =
     (let s1 = (if messages s channel = None
                then s\<lparr>messages := (messages s)(channel \<mapsto> [])\<rparr> else s);
          pushed = getMessages s1 channel @ [message];
          channelMessages =
            (if length pushed > 1000 then splice0 (length pushed - 1000) pushed else pushed);
          s2 = s1\<lparr>messages := (messages s1)(channel \<mapsto> channelMessages)\<rparr>
      in if has_delegate s2
         then s2\<lparr>delegate_calls := delegate_calls s2 @ [OnMessageAdded channel message]\<rparr>
         else s2)"

text \<open>
  \<open>addSystemMessage(channel, content)\<close>; \<open>mid\<close> is the identifier that
  \<open>generateMessageId()\<close> draws and \<open>date\<close> is \<open>new Date()\<close>.
\<close>

definition addSystemMessage :: "chat_service \<Rightarrow> string \<Rightarrow> string \<Rightarrow> string \<Rightarrow> js_date \<Rightarrow> chat_service" where
  "addSystemMessage s channel content mid date =
     addMessage s channel
       \<lparr>msg_id = mid, msg_type = ''system'', msg_channel = Some channel, msg_from = None,
        msg_to = None, msg_content = content, msg_timestamp = date, msg_own = None\<rparr>"

definition addPrivateMessage :: "chat_service \<Rightarrow> string \<Rightarrow> chat_message \<Rightarrow> chat_service" where
  "addPrivateMessage s peer message =
     (let old = (case privateMessages s peer of None \<Rightarrow> [] | Some ms \<Rightarrow> ms);
          s1 = s\<lparr>privateMessages := (privateMessages s)(peer \<mapsto> old @ [message])\<rparr>
      in if has_delegate s1
         then s1\<lparr>delegate_calls := delegate_calls s1 @ [OnPrivateMessageAdded peer message]\<rparr>
         else s1)"

text \<open>
  \<open>this.crossTabService.sendMessage(...)\<close>: the class \<open>CrossTabService\<close> of cross-tab.js
  declares \<open>sendChatMessage\<close>, \<open>sendPrivateMessage\<close> and \<open>broadcastMessage\<close> but no method
  \<open>sendMessage\<close>, so the call raises a \<open>TypeError\<close>.
\<close>

definition crossTabService_sendMessage :: "chat_message \<Rightarrow> js_error + unit" where
  "crossTabService_sendMessage data = Inl TypeError"

text \<open>
  \<open>sendChannelMessage(channel, content)\<close>, with the state and the boolean it resolves to;
  \<open>messageId\<close> and \<open>timestamp\<close> are \<open>generateMessageId()\<close> and \<open>new Date()\<close>. The whole body
  is inside \<open>try\<close>: an exception ends it with \<open>false\<close>.
\<close>

definition sendChannelMessage ::
  "chat_service \<Rightarrow> string \<Rightarrow> string \<Rightarrow> string \<Rightarrow> js_date \<Rightarrow> chat_service \<times> bool" where
  "sendChannelMessage s channel content messageId timestamp =
     (let message = JObject
            [(''id'', JString messageId), (''type'', JString ''chat''),
             (''channel'', JString channel), (''from'', JString (myNickname s)),
             (''content'', JString content), (''timestamp'', JString (iso_string timestamp))];
          localMessage =
            \<lparr>msg_id = messageId, msg_type = ''chat'', msg_channel = Some channel,
             msg_from = Some (myNickname s), msg_to = None, msg_content = content,
             msg_timestamp = timestamp, msg_own = Some True\<rparr>;
          s1 = addMessage s channel localMessage
      in case crossTabService_sendMessage localMessage of
           Inl error \<Rightarrow> (s1, False)
         | Inr _ \<Rightarrow>
             (case broadcastMessage (bluetoothService s1) (JSON_stringify message) of
                (bt, sentCount) \<Rightarrow> (s1\<lparr>bluetoothService := bt\<rparr>, True)))"

text \<open>\<open>peers.find(p => p.name === targetNickname)\<close>.\<close>

definition find_peer :: "peer_info list \<Rightarrow> string \<Rightarrow> peer_info option" where
  "find_peer ps targetNickname = find (\<lambda>p. peer_name p = targetNickname) ps"

text \<open>
  \<open>sendPrivateMessage(targetNickname, content)\<close>; \<open>errorId\<close> and \<open>errorDate\<close> are the
  identifier and the date that the \<open>addSystemMessage\<close> of the \<open>catch\<close> block draws.
\<close>

definition private_failure :: "chat_service \<Rightarrow> string \<Rightarrow> string \<Rightarrow> string \<Rightarrow> js_date \<Rightarrow> chat_service" where
  "private_failure s targetNickname error_message errorId errorDate =
     addSystemMessage s (currentChannel s)
       (''Impossible d'' @ [CHR 0x27] @ ''envoyer le message priv'' @ [CHR 0xE9] @ '' ''
          @ [CHR 0xE0] @ '' '' @ targetNickname @ '': '' @ error_message)
       errorId errorDate"

definition sendPrivateMessage ::
  "chat_service \<Rightarrow> string \<Rightarrow> string \<Rightarrow> string \<Rightarrow> js_date \<Rightarrow> string \<Rightarrow> js_date
     \<Rightarrow> chat_service \<times> bool" where
  "sendPrivateMessage s targetNickname content messageId timestamp errorId errorDate =
     (let message = JObject
            [(''id'', JString messageId), (''type'', JString ''private''),
             (''from'', JString (myNickname s)), (''to'', JString targetNickname),
             (''content'', JString content), (''timestamp'', JString (iso_string timestamp))];
          s1 = addPrivateMessage s targetNickname
                 \<lparr>msg_id = messageId, msg_type = ''private'', msg_channel = None,
                  msg_from = Some (myNickname s), msg_to = Some targetNickname,
                  msg_content = content, msg_timestamp = timestamp, msg_own = Some True\<rparr>
      in case find_peer (getConnectedPeers (bluetoothService s1)) targetNickname of
           Some targetPeer \<Rightarrow>
             (case sendToPeer (bluetoothService s1) (peer_id targetPeer) (JSON_stringify message) of
                (bt, sent_ok) \<Rightarrow>
                  (if sent_ok then (s1\<lparr>bluetoothService := bt\<rparr>, True)
                   else (private_failure (s1\<lparr>bluetoothService := bt\<rparr>) targetNickname
                           ''Failed to send to peer'' errorId errorDate, False)))
         | None \<Rightarrow>
             (private_failure s1 targetNickname ''Peer not found'' errorId errorDate, False))"

section \<open>Example states\<close>

text \<open>
  Concrete states and event sequences on which the theorems below are instantiated: a
  service that has started one negotiation; a service with one connected peer whose
  channel takes messages of at most 16 code units; a service with four connected peers,
  of which the second has a channel that takes at most 2 code units and the third has no
  channel; a table of three registered tabs; two services with an open signaling socket
  in the same room, and the second of them after the offer of the first has arrived; a
  service an hour after it sent an offer that nobody answered, and events that do not
  release that negotiation; a service with a delegate, before and after two runs in
  which the probe found the signaling server; the run of \<open>testBluetoothService\<close> in
  \<open>test.js\<close> (a second \<open>init()\<close>, then a direct call of \<open>simulatePeerDiscovery()\<close>) with a
  signaling server that both probes find; and a chat service with one connected peer
  whose channel takes every message.
\<close>

definition negotiating :: bluetooth_service where
  "negotiating = connectToPeer (new_service ''me-1'' ''bitchat-1'') ''peer-x''"

definition live :: bluetooth_service where
  "live = run (new_service ''me-1'' ''bitchat-1'')
            [ConnectionStateChange ''peer-x'' ConnConnected,
             ChannelOpen ''peer-x'' (\<lambda>m. length m \<le> 16)]"

definition four_peers :: bluetooth_service where
  "four_peers = run (new_service ''me-1'' ''bitchat-1'')
     [ConnectionStateChange ''peer-a'' ConnConnected,
      ConnectionStateChange ''peer-b'' ConnConnected,
      ConnectionStateChange ''peer-c'' ConnConnected,
      ConnectionStateChange ''peer-d'' ConnConnected,
      ChannelOpen ''peer-a'' (\<lambda>m. length m \<le> 16),
      ChannelOpen ''peer-b'' (\<lambda>m. length m \<le> 2),
      ChannelOpen ''peer-d'' (\<lambda>m. length m \<le> 16)]"

definition three_tabs :: tabs_table where
  "three_tabs =
     [(''tab-k3x-1700000000200'', \<lparr>tab_id = ''tab-k3x-1700000000200'', tab_created = 1700000000200,
          tab_lastSeen = 1700000005200, tab_nickname = ''Bob''\<rparr>),
      (''tab-a9z-1700000000100'', \<lparr>tab_id = ''tab-a9z-1700000000100'', tab_created = 1700000000100,
          tab_lastSeen = 1700000005100, tab_nickname = ''Alice''\<rparr>),
      (''tab-zz0-1700000000000'', \<lparr>tab_id = ''tab-zz0-1700000000000'', tab_created = 1700000000000,
          tab_lastSeen = 1700000005000, tab_nickname = ''Carol''\<rparr>)]"

definition tab_of :: "string \<Rightarrow> cross_tab_service" where
  "tab_of t = \<lparr>myTabId = t, isLeader = False, leader_notes = []\<rparr>"

definition side_a :: bluetooth_service where
  "side_a = run (new_service ''me-aaa'' ''bitchat-room'') [ProbeResolved True False, WsOpen 0]"

definition side_b :: bluetooth_service where
  "side_b = run (new_service ''me-bbb'' ''bitchat-room'') [ProbeResolved True False, WsOpen 0]"

definition offered :: bluetooth_service where
  "offered = run side_b [WsMessage 0 (Offer ''me-aaa'' ''me-bbb'' ''sdp-a'')]"

definition stale :: bluetooth_service where
  "stale = run (new_service ''me-1'' ''bitchat-room'')
     [ProbeResolved True False, WsOpen 0, ConnectToPeer ''peer-x'',
      TaskSettled (OfferTask ''peer-x'') (Some ''offer-sdp''), Tick 3600000]"

definition waiting :: "event list" where
  "waiting = [Tick 30000, WsMessage 0 (PeerJoined ''peer-x''), IntervalFired, Tick 3600000,
              WsMessage 0 (IceCandidate ''peer-x'' ''me-1'' ''candidate''), WsClose 0,
              TimerFired FallbackTimer]"

definition started :: bluetooth_service where
  "started = setDelegate (new_service ''me-1'' ''bitchat-room'') chat_delegate"

definition after_close :: bluetooth_service where
  "after_close = run started
     [ProbeResolved True False, WsOpen 0, WsMessage 0 (RoomJoined [''me-2'']), WsClose 0,
      TimerFired FallbackTimer, TimerFired (DiscoverTimer 0)]"

definition while_open :: bluetooth_service where
  "while_open = run started
     [StartScanning, ProbeResolved True False, WsOpen 0, WsMessage 0 (RoomJoined [''me-2'']),
      IntervalFired, TimerFired (DiscoverTimer 0)]"

definition tested :: bluetooth_service where
  "tested = run (new_service ''me-1'' ''bitchat-room'')
     [Init, ProbeResolved True False, ProbeResolved True False, WsOpen 0, WsOpen 1,
      SimulatePeerDiscovery, TimerFired (DiscoverTimer 0)]"

definition chatting :: chat_service where
  "chatting =
     \<lparr>bluetoothService = run (new_service ''me-1'' ''bitchat-room'')
        [ConnectionStateChange ''me-7f3k2q9xa'' ConnConnected,
         ChannelOpen ''me-7f3k2q9xa'' (\<lambda>m. True)],
      messages = Map.empty, privateMessages = Map.empty,
      currentChannel = ''#g'' @ [CHR 0xE9] @ ''n'' @ [CHR 0xE9] @ ''ral'',
      myNickname = ''SwiftFox42'', has_delegate = False, delegate_calls = []\<rparr>"

definition noon :: js_date where
  "noon = \<lparr>epoch_ms = 1735732800000, iso_string = ''2025-01-01T12:00:00.000Z''\<rparr>"

section \<open>Properties of the message store\<close>

lemma getMessages_addMessage:
  "getMessages (addMessage s channel message) channel =
     drop (length (getMessages s channel @ [message]) - 1000) (getMessages s channel @ [message])"
  by (simp add: addMessage_def getMessages_def splice0_def Let_def split: option.splits)

text \<open>
  Claim C10. After \<open>addMessage(channel, message)\<close> the channel has a message list; it holds
  at most 1000 entries, it ends with the message just added, and it is exactly the last
  \<open>min 1000 (n + 1)\<close> entries of the old list followed by the new message, in their order
  (only the oldest entries are dropped).
\<close>

theorem addMessage_bounded_history:
  "\<exists>ms. messages (addMessage s channel message) channel = Some ms
     \<and> length ms \<le> 1000
     \<and> ms \<noteq> [] \<and> last ms = message
     \<and> length ms = min 1000 (length (getMessages s channel) + 1)
     \<and> ms = drop (length (getMessages s channel @ [message]) - 1000)
                 (getMessages s channel @ [message])"
proof -
  let ?all = "getMessages s channel @ [message]"
  let ?ms = "drop (length ?all - 1000) ?all"
  have stored: "messages (addMessage s channel message) channel = Some ?ms"
    by (simp add: addMessage_def getMessages_def splice0_def Let_def split: option.splits)
  have len: "length ?ms = min 1000 (length (getMessages s channel) + 1)"
    by simp
  have ne: "?ms \<noteq> []"
    by simp
  have "last ?ms = last ?all"
    by (rule last_drop) simp
  then have lst: "last ?ms = message"
    by simp
  from stored len ne lst show ?thesis
    by simp
qed

section \<open>Properties of the text codec and of message encryption\<close>

subsection \<open>The UTF-8 decoder on encoded scalar values\<close>

lemma mod_add_mult: "x < m \<Longrightarrow> (k * m + x) mod m = (x::nat)"
  by simp

lemma div_4096: "(c::nat) div 0x1000 = c div 0x40 div 0x40"
  by (simp add: div_mult2_eq [symmetric])

lemma div_262144: "(c::nat) div 0x40000 = c div 0x1000 div 0x40"
  by (simp add: div_mult2_eq [symmetric])

lemma cont_mod: "(0x80 + (x::nat) mod 0x40) mod 0x40 = x mod 0x40"
  using mod_add_mult [of "x mod 0x40" "0x40" 2] by simp

lemma cont_value: "(x::nat) div 0x40 * 0x40 + (0x80 + x mod 0x40) mod 0x40 = x"
  by (simp add: cont_mod)

lemma lead2_mod: "(c::nat) < 0x800 \<Longrightarrow> (0xC0 + c div 0x40) mod 0x20 = c div 0x40"
proof -
  assume "c < 0x800"
  then have "c div 0x40 < 0x20" by linarith
  from mod_add_mult [OF this, of 6] show ?thesis by simp
qed

lemma cont_value3: "(c::nat) div 0x1000 * 0x40 + (0x80 + c div 0x40 mod 0x40) mod 0x40 = c div 0x40"
  by (simp add: div_4096 cont_mod)

lemma cont_value4: "(c::nat) div 0x40000 * 0x40 + (0x80 + c div 0x1000 mod 0x40) mod 0x40 = c div 0x1000"
  by (simp add: div_262144 cont_mod)

lemma lead3_mod: "(c::nat) < 0x10000 \<Longrightarrow> (0xE0 + c div 0x1000) mod 0x10 = c div 0x1000"
proof -
  assume "c < 0x10000"
  then have "c div 0x1000 < 0x10" by linarith
  from mod_add_mult [OF this, of 14] show ?thesis by simp
qed

lemma lead4_mod: "(c::nat) < 0x110000 \<Longrightarrow> (0xF0 + c div 0x40000) mod 0x08 = c div 0x40000"
proof -
  assume "c < 0x110000"
  then have "c div 0x40000 < 0x08" by linarith
  from mod_add_mult [OF this, of 30] show ?thesis by simp
qed

lemma bounds3:
  assumes "(0x800::nat) \<le> c" "c < 0x10000" "\<not> (0xD800 \<le> c \<and> c \<le> 0xDFFF)"
  shows "(if 0xE0 + c div 0x1000 = 0xE0 then 0xA0 else (0x80::nat)) \<le> 0x80 + c div 0x40 mod 0x40"
    and "0x80 + c div 0x40 mod 0x40 \<le> (if 0xE0 + c div 0x1000 = 0xED then 0x9F else (0xBF::nat))"
proof -
  define x where "x = c div 0x40"
  have x: "0x20 \<le> x" "\<not> (0x360 \<le> x \<and> x \<le> 0x37F)"
    using assms unfolding x_def by linarith+
  have q: "c div 0x1000 = x div 0x40" by (simp add: div_4096 x_def)
  show "(if 0xE0 + c div 0x1000 = 0xE0 then 0xA0 else (0x80::nat)) \<le> 0x80 + c div 0x40 mod 0x40"
    unfolding q x_def [symmetric] using x by (simp; linarith)
  show "0x80 + c div 0x40 mod 0x40 \<le> (if 0xE0 + c div 0x1000 = 0xED then 0x9F else (0xBF::nat))"
  proof (cases "x div 0x40 = 0x0D")
    case True
    have "x = x div 0x40 * 0x40 + x mod 0x40" by simp
    with True have "x = 0x0D * 0x40 + x mod 0x40" by simp
    then have "x mod 0x40 \<le> 0x1F" using x by linarith
    then show ?thesis unfolding q x_def [symmetric] using True by simp
  next
    case False
    have "x mod 0x40 \<le> 0x3F" by linarith
    then show ?thesis unfolding q x_def [symmetric] using False by simp
  qed
qed

lemma bounds4:
  assumes "(0x10000::nat) \<le> c" "c < 0x110000"
  shows "(if 0xF0 + c div 0x40000 = 0xF0 then 0x90 else (0x80::nat)) \<le> 0x80 + c div 0x1000 mod 0x40"
    and "0x80 + c div 0x1000 mod 0x40 \<le> (if 0xF0 + c div 0x40000 = 0xF4 then 0x8F else (0xBF::nat))"
proof -
  define x where "x = c div 0x1000"
  have x: "0x10 \<le> x" "x < 0x110"
    using assms unfolding x_def by linarith+
  have q: "c div 0x40000 = x div 0x40" by (simp add: div_262144 x_def)
  show "(if 0xF0 + c div 0x40000 = 0xF0 then 0x90 else (0x80::nat)) \<le> 0x80 + c div 0x1000 mod 0x40"
    unfolding q x_def [symmetric] using x by (simp; linarith)
  show "0x80 + c div 0x1000 mod 0x40 \<le> (if 0xF0 + c div 0x40000 = 0xF4 then 0x8F else (0xBF::nat))"
  proof (cases "x div 0x40 = 0x04")
    case True
    have "x = x div 0x40 * 0x40 + x mod 0x40" by simp
    with True have "x = 0x04 * 0x40 + x mod 0x40" by simp
    then have "x mod 0x40 \<le> 0x0F" using x by linarith
    then show ?thesis unfolding q x_def [symmetric] using True by simp
  next
    case False
    have "x mod 0x40 \<le> 0x3F" by linarith
    then show ?thesis unfolding q x_def [symmetric] using False by simp
  qed
qed


lemma unat8: "n < 256 \<Longrightarrow> unat (of_nat n :: 8 word) = n"
  by (simp add: unat_of_nat)

lemma unat16: "n < 65536 \<Longrightarrow> unat (of_nat n :: 16 word) = n"
  by (simp add: unat_of_nat)

lemma handler_lead1: "b \<le> 0x7F \<Longrightarrow> utf8_handler utf8_initial b = ([b], utf8_initial)"
  by (simp add: utf8_handler_def utf8_lead_def utf8_initial_def)

lemma handler_lead2:
  "0xC2 \<le> b \<Longrightarrow> b \<le> 0xDF \<Longrightarrow>
   utf8_handler utf8_initial b =
     ([], \<lparr>code_point = b mod 0x20, bytes_seen = 0, bytes_needed = Suc 0,
           lower_boundary = 0x80, upper_boundary = 0xBF\<rparr>)"
  by (simp add: utf8_handler_def utf8_lead_def utf8_initial_def)

lemma dec1:
  assumes "c < 0x80"
  shows "utf8_decode_from utf8_initial (utf8_encode_code_point c @ bs) = c # utf8_decode_from utf8_initial bs"
proof -
  have e: "utf8_encode_code_point c = [of_nat c]" using assms by (simp add: utf8_encode_code_point_def)
  have u: "unat (of_nat c :: 8 word) = c" using assms by (intro unat8) simp
  show ?thesis using assms by (simp add: e u handler_lead1)
qed

lemma handler_lead3:
  "0xE0 \<le> b \<Longrightarrow> b \<le> 0xEF \<Longrightarrow>
   utf8_handler utf8_initial b =
     ([], \<lparr>code_point = b mod 0x10, bytes_seen = 0, bytes_needed = 2,
           lower_boundary = (if b = 0xE0 then 0xA0 else 0x80),
           upper_boundary = (if b = 0xED then 0x9F else 0xBF)\<rparr>)"
  by (simp add: utf8_handler_def utf8_lead_def utf8_initial_def)

lemma handler_lead4:
  "0xF0 \<le> b \<Longrightarrow> b \<le> 0xF4 \<Longrightarrow>
   utf8_handler utf8_initial b =
     ([], \<lparr>code_point = b mod 0x08, bytes_seen = 0, bytes_needed = 3,
           lower_boundary = (if b = 0xF0 then 0x90 else 0x80),
           upper_boundary = (if b = 0xF4 then 0x8F else 0xBF)\<rparr>)"
  by (simp add: utf8_handler_def utf8_lead_def utf8_initial_def)

lemma handler_continue:
  "lo \<le> b \<Longrightarrow> b \<le> hi \<Longrightarrow> 0 < needed \<Longrightarrow>
   utf8_handler \<lparr>code_point = cp, bytes_seen = seen, bytes_needed = needed,
                 lower_boundary = lo, upper_boundary = hi\<rparr> b =
     (if Suc seen = needed then ([cp * 0x40 + b mod 0x40], utf8_initial)
      else ([], \<lparr>code_point = cp * 0x40 + b mod 0x40, bytes_seen = Suc seen,
                 bytes_needed = needed, lower_boundary = 0x80, upper_boundary = 0xBF\<rparr>))"
  by (simp add: utf8_handler_def Let_def)


lemma dec2:
  assumes "0x80 \<le> c" "c < 0x800"
  shows "utf8_decode_from utf8_initial (utf8_encode_code_point c @ bs) = c # utf8_decode_from utf8_initial bs"
proof -
  define b1 where "b1 = 0xC0 + c div 0x40"
  define b2 where "b2 = 0x80 + c mod 0x40"
  have e: "utf8_encode_code_point c = [of_nat b1, of_nat b2]"
    using assms by (simp add: utf8_encode_code_point_def b1_def b2_def)
  have r1: "0xC2 \<le> b1" "b1 \<le> 0xDF" using assms unfolding b1_def by linarith+
  have r2: "0x80 \<le> b2" "b2 \<le> 0xBF" unfolding b2_def by linarith+
  have u1: "unat (of_nat b1 :: 8 word) = b1" using r1 by (intro unat8) simp
  have u2: "unat (of_nat b2 :: 8 word) = b2" using r2 by (intro unat8) simp
  have m1: "b1 mod 0x20 = c div 0x40" using assms unfolding b1_def by (simp add: lead2_mod)
  have v: "c div 0x40 * 0x40 + b2 mod 0x40 = c" unfolding b2_def by (rule cont_value)
  have h1: "utf8_handler utf8_initial b1 =
      ([], \<lparr>code_point = c div 0x40, bytes_seen = 0, bytes_needed = Suc 0,
            lower_boundary = 0x80, upper_boundary = 0xBF\<rparr>)"
    using r1 by (simp add: handler_lead2 m1)
  have h2: "utf8_handler \<lparr>code_point = c div 0x40, bytes_seen = 0, bytes_needed = Suc 0,
            lower_boundary = 0x80, upper_boundary = 0xBF\<rparr> b2 = ([c], utf8_initial)"
    using r2 by (simp add: handler_continue v)
  show ?thesis by (simp add: e u1 u2 h1 h2)
qed

lemma dec3:
  assumes "0x800 \<le> c" "c < 0x10000" "\<not> (0xD800 \<le> c \<and> c \<le> 0xDFFF)"
  shows "utf8_decode_from utf8_initial (utf8_encode_code_point c @ bs) = c # utf8_decode_from utf8_initial bs"
proof -
  define b1 where "b1 = 0xE0 + c div 0x1000"
  define b2 where "b2 = 0x80 + c div 0x40 mod 0x40"
  define b3 where "b3 = 0x80 + c mod 0x40"
  define lo where "lo = (if b1 = 0xE0 then 0xA0 else (0x80::nat))"
  define hi where "hi = (if b1 = 0xED then 0x9F else (0xBF::nat))"
  have e: "utf8_encode_code_point c = [of_nat b1, of_nat b2, of_nat b3]"
    using assms by (simp add: utf8_encode_code_point_def b1_def b2_def b3_def)
  have r1: "0xE0 \<le> b1" "b1 \<le> 0xEF" using assms unfolding b1_def by linarith+
  have r2: "lo \<le> b2" "b2 \<le> hi"
    unfolding b1_def b2_def lo_def hi_def using bounds3 [OF assms] by blast+
  have r2': "b2 \<le> 0xBF" unfolding b2_def by linarith
  have r3: "0x80 \<le> b3" "b3 \<le> 0xBF" unfolding b3_def by linarith+
  have u1: "unat (of_nat b1 :: 8 word) = b1" using r1 by (intro unat8) simp
  have u2: "unat (of_nat b2 :: 8 word) = b2" using r2' by (intro unat8) simp
  have u3: "unat (of_nat b3 :: 8 word) = b3" using r3 by (intro unat8) simp
  have m1: "b1 mod 0x10 = c div 0x1000" using assms unfolding b1_def by (simp add: lead3_mod)
  have v2: "c div 0x1000 * 0x40 + b2 mod 0x40 = c div 0x40" unfolding b2_def by (rule cont_value3)
  have v3: "c div 0x40 * 0x40 + b3 mod 0x40 = c" unfolding b3_def by (rule cont_value)
  have h1: "utf8_handler utf8_initial b1 =
      ([], \<lparr>code_point = c div 0x1000, bytes_seen = 0, bytes_needed = 2,
            lower_boundary = lo, upper_boundary = hi\<rparr>)"
    using r1 by (simp add: handler_lead3 m1 lo_def hi_def)
  have h2: "utf8_handler \<lparr>code_point = c div 0x1000, bytes_seen = 0, bytes_needed = 2,
            lower_boundary = lo, upper_boundary = hi\<rparr> b2 =
      ([], \<lparr>code_point = c div 0x40, bytes_seen = Suc 0, bytes_needed = 2,
            lower_boundary = 0x80, upper_boundary = 0xBF\<rparr>)"
    using r2 by (simp add: handler_continue v2)
  have h3: "utf8_handler \<lparr>code_point = c div 0x40, bytes_seen = Suc 0, bytes_needed = 2,
            lower_boundary = 0x80, upper_boundary = 0xBF\<rparr> b3 = ([c], utf8_initial)"
    using r3 by (simp add: handler_continue v3)
  show ?thesis by (simp add: e u1 u2 u3 h1 h2 h3)
qed

lemma dec4:
  assumes "0x10000 \<le> c" "c < 0x110000"
  shows "utf8_decode_from utf8_initial (utf8_encode_code_point c @ bs) = c # utf8_decode_from utf8_initial bs"
proof -
  define b1 where "b1 = 0xF0 + c div 0x40000"
  define b2 where "b2 = 0x80 + c div 0x1000 mod 0x40"
  define b3 where "b3 = 0x80 + c div 0x40 mod 0x40"
  define b4 where "b4 = 0x80 + c mod 0x40"
  define lo where "lo = (if b1 = 0xF0 then 0x90 else (0x80::nat))"
  define hi where "hi = (if b1 = 0xF4 then 0x8F else (0xBF::nat))"
  have e: "utf8_encode_code_point c = [of_nat b1, of_nat b2, of_nat b3, of_nat b4]"
    using assms by (simp add: utf8_encode_code_point_def b1_def b2_def b3_def b4_def)
  have r1: "0xF0 \<le> b1" "b1 \<le> 0xF4" using assms unfolding b1_def by linarith+
  have r2: "lo \<le> b2" "b2 \<le> hi"
    unfolding b1_def b2_def lo_def hi_def using bounds4 [OF assms] by blast+
  have r2': "b2 \<le> 0xBF" unfolding b2_def by linarith
  have r3: "0x80 \<le> b3" "b3 \<le> 0xBF" unfolding b3_def by linarith+
  have r4: "0x80 \<le> b4" "b4 \<le> 0xBF" unfolding b4_def by linarith+
  have u1: "unat (of_nat b1 :: 8 word) = b1" using r1 by (intro unat8) simp
  have u2: "unat (of_nat b2 :: 8 word) = b2" using r2' by (intro unat8) simp
  have u3: "unat (of_nat b3 :: 8 word) = b3" using r3 by (intro unat8) simp
  have u4: "unat (of_nat b4 :: 8 word) = b4" using r4 by (intro unat8) simp
  have m1: "b1 mod 0x08 = c div 0x40000" using assms unfolding b1_def by (simp add: lead4_mod)
  have v2: "c div 0x40000 * 0x40 + b2 mod 0x40 = c div 0x1000" unfolding b2_def by (rule cont_value4)
  have v3: "c div 0x1000 * 0x40 + b3 mod 0x40 = c div 0x40" unfolding b3_def by (rule cont_value3)
  have v4: "c div 0x40 * 0x40 + b4 mod 0x40 = c" unfolding b4_def by (rule cont_value)
  have h1: "utf8_handler utf8_initial b1 =
      ([], \<lparr>code_point = c div 0x40000, bytes_seen = 0, bytes_needed = 3,
            lower_boundary = lo, upper_boundary = hi\<rparr>)"
    using r1 by (simp add: handler_lead4 m1 lo_def hi_def)
  have h2: "utf8_handler \<lparr>code_point = c div 0x40000, bytes_seen = 0, bytes_needed = 3,
            lower_boundary = lo, upper_boundary = hi\<rparr> b2 =
      ([], \<lparr>code_point = c div 0x1000, bytes_seen = Suc 0, bytes_needed = 3,
            lower_boundary = 0x80, upper_boundary = 0xBF\<rparr>)"
    using r2 by (simp add: handler_continue v2)
  have h3: "utf8_handler \<lparr>code_point = c div 0x1000, bytes_seen = Suc 0, bytes_needed = 3,
            lower_boundary = 0x80, upper_boundary = 0xBF\<rparr> b3 =
      ([], \<lparr>code_point = c div 0x40, bytes_seen = 2, bytes_needed = 3,
            lower_boundary = 0x80, upper_boundary = 0xBF\<rparr>)"
    using r3 by (simp add: handler_continue v3)
  have h4: "utf8_handler \<lparr>code_point = c div 0x40, bytes_seen = 2, bytes_needed = 3,
            lower_boundary = 0x80, upper_boundary = 0xBF\<rparr> b4 = ([c], utf8_initial)"
    using r4 by (simp add: handler_continue v4)
  show ?thesis by (simp add: e u1 u2 u3 u4 h1 h2 h3 h4)
qed

lemma decode_one:
  assumes "scalar c"
  shows "utf8_decode_from utf8_initial (utf8_encode_code_point c @ bs) = c # utf8_decode_from utf8_initial bs"
proof -
  consider "c < 0x80" | "0x80 \<le> c" "c < 0x800" | "0x800 \<le> c" "c < 0x10000" | "0x10000 \<le> c"
    by linarith
  then show ?thesis
  proof cases
    case 1 then show ?thesis by (rule dec1)
  next
    case 2 then show ?thesis by (rule dec2)
  next
    case 3 with assms show ?thesis by (intro dec3) (simp_all add: scalar_def)
  next
    case 4 with assms show ?thesis by (intro dec4) (simp_all add: scalar_def)
  qed
qed

lemma decode_all:
  "list_all scalar cs \<Longrightarrow>
   utf8_decode_from utf8_initial (concat (map utf8_encode_code_point cs)) = cs"
proof (induction cs)
  case Nil
  show ?case by (simp add: utf8_initial_def)
next
  case (Cons c cs)
  then show ?case by (simp add: decode_one)
qed


subsection \<open>UTF-16 code units and scalar values\<close>

lemma unat_lt16: "unat (u :: 16 word) < 0x10000"
  using unsigned_less [of u] by simp

lemma scalar_unit: "\<not> is_lead u \<Longrightarrow> \<not> is_trail u \<Longrightarrow> scalar (unat u)"
  using unat_lt16 [of u] by (simp add: scalar_def is_lead_def is_trail_def) linarith

lemma scalar_replacement: "scalar 0xFFFD"
  by (simp add: scalar_def)

lemma pair_range:
  assumes "is_lead u" "is_trail v"
  shows "0x10000 \<le> pair_value u v" "pair_value u v < 0x110000"
proof -
  have a: "unat u - 0xD800 \<le> 0x3FF" using assms(1) unfolding is_lead_def by linarith
  have b: "unat v - 0xDC00 \<le> 0x3FF" using assms(2) unfolding is_trail_def by linarith
  show "0x10000 \<le> pair_value u v" by (simp add: pair_value_def)
  from a have "(unat u - 0xD800) * 0x400 \<le> 0x3FF * 0x400" by (rule mult_le_mono1)
  with b show "pair_value u v < 0x110000" by (simp add: pair_value_def)
qed

lemma scalar_pair: "is_lead u \<Longrightarrow> is_trail v \<Longrightarrow> scalar (pair_value u v)"
  using pair_range [of u v] by (simp add: scalar_def)

lemma scalars_to_scalar_values: "list_all scalar (to_scalar_values s)"
  by (induction s rule: to_scalar_values.induct)
     (simp_all add: scalar_unit scalar_replacement scalar_pair [unfolded pair_value_def])

lemma units_unit: "\<not> is_lead u \<Longrightarrow> \<not> is_trail u \<Longrightarrow> utf16_units (unat u) = [u]"
  using unat_lt16 [of u] by (simp add: utf16_units_def)

lemma units_pair:
  assumes "is_lead u" "is_trail v"
  shows "utf16_units (pair_value u v) = [u, v]"
proof -
  define a where "a = unat u - 0xD800"
  define b where "b = unat v - 0xDC00"
  have b: "b < 0x400" using assms(2) unfolding is_trail_def b_def by linarith
  have ua: "0xD800 + a = unat u" using assms(1) unfolding is_lead_def a_def by linarith
  have vb: "0xDC00 + b = unat v" using assms(2) unfolding is_trail_def b_def by linarith
  have p: "pair_value u v - 0x10000 = a * 0x400 + b"
    by (simp add: pair_value_def a_def b_def)
  have d: "(a * 0x400 + b) div 0x400 = a" using b by simp
  have m: "(a * 0x400 + b) mod 0x400 = b" using b by simp
  have ge: "\<not> pair_value u v < 0x10000" using pair_range(1) [OF assms] by simp
  show ?thesis
    unfolding utf16_units_def using ge by (simp only: if_False p d m ua vb) simp
qed

lemma units_to_scalar_values:
  "well_formed s \<Longrightarrow> concat (map utf16_units (to_scalar_values s)) = s"
proof (induction s rule: to_scalar_values.induct)
  case 1
  show ?case by simp
next
  case (2 u)
  then show ?case by (simp add: units_unit)
next
  case (3 u v rest)
  show ?case
  proof (cases "is_lead u \<and> is_trail v")
    case True
    with 3 show ?thesis by (simp add: units_pair [unfolded pair_value_def])
  next
    case False
    with 3 show ?thesis by (simp add: units_unit)
  qed
qed

lemma unat_bom: "u \<noteq> 0xFEFF \<Longrightarrow> unat (u :: 16 word) \<noteq> 0xFEFF"
proof
  assume ne: "u \<noteq> 0xFEFF" and eq: "unat u = 0xFEFF"
  have "u = of_nat (unat u)" by simp
  with eq have "u = 0xFEFF" by simp
  with ne show False by simp
qed

lemma head_to_scalar_values:
  "well_formed s \<Longrightarrow> \<not> starts_with_bom s \<Longrightarrow> drop_bom (to_scalar_values s) = to_scalar_values s"
proof (cases s rule: to_scalar_values.cases)
  case 1
  then show ?thesis by (simp add: drop_bom_def)
next
  case (2 u)
  assume "well_formed s" "\<not> starts_with_bom s"
  with 2 have "unat u \<noteq> 0xFEFF"
    by (simp add: starts_with_bom_def unat_bom)
  with 2 \<open>well_formed s\<close> show ?thesis by (simp add: drop_bom_def)
next
  case (3 u v rest)
  assume wf: "well_formed s" and nb: "\<not> starts_with_bom s"
  show ?thesis
  proof (cases "is_lead u \<and> is_trail v")
    case True
    then have "pair_value u v \<noteq> 0xFEFF" using pair_range(1) [of u v] by simp
    with 3 True show ?thesis by (simp add: drop_bom_def pair_value_def)
  next
    case False
    from 3 nb have "unat u \<noteq> 0xFEFF" by (simp add: starts_with_bom_def unat_bom)
    with 3 False wf show ?thesis by (simp add: drop_bom_def)
  qed
qed

lemma text_codec_general:
  "TextDecoder_decode (TextEncoder_encode s) =
     concat (map utf16_units (drop_bom (to_scalar_values s)))"
  by (simp add: TextDecoder_decode_def TextEncoder_encode_def decode_all scalars_to_scalar_values)

lemma text_codec_roundtrip:
  "well_formed s \<Longrightarrow> \<not> starts_with_bom s \<Longrightarrow> TextDecoder_decode (TextEncoder_encode s) = s"
  by (simp add: text_codec_general head_to_scalar_values units_to_scalar_values)


subsection \<open>Encryption round trip\<close>

lemma sound_shift_cipher: "sound_cipher shift_cipher"
  by (auto simp add: sound_cipher_def shift_cipher_def o_def)

lemma decrypt_of_encrypt:
  assumes "sound_cipher P" "length iv = 12" "encryptMessage P m k iv = Inr c"
  shows "decryptMessage P c k = Inr (TextDecoder_decode (TextEncoder_encode m))"
proof -
  from assms(3) obtain e where e: "gcm_encrypt P k iv (TextEncoder_encode m) = Some e"
    and c: "c = iv @ e"
    by (auto simp add: encryptMessage_def Let_def split: option.splits)
  from assms(1) e have d: "gcm_decrypt P k iv e = Some (TextEncoder_encode m)"
    by (simp add: sound_cipher_def)
  from assms(2) c have "take 12 c = iv" "drop 12 c = e" by simp_all
  with d show ?thesis by (simp add: decryptMessage_def)
qed

text \<open>
  Claim C2, as amended. For a cipher that decrypts what it encrypted, a twelve-byte IV, and
  a message that is well-formed UTF-16 (no unpaired surrogate) and does not begin with
  U+FEFF: when \<open>encryptMessage\<close> returns \<open>c\<close>, \<open>decryptMessage\<close> of \<open>c\<close> under the same key
  returns the message.
\<close>

theorem encrypt_decrypt_roundtrip:
  assumes "sound_cipher P" and "length iv = 12"
    and "well_formed m" and "\<not> starts_with_bom m"
    and "encryptMessage P m k iv = Inr c"
  shows "decryptMessage P c k = Inr m"
  using decrypt_of_encrypt [OF assms(1,2,5)] assms(3,4)
  by (simp add: text_codec_roundtrip)

text \<open>The message \<open>hi\<close> under the stand-in cipher.\<close>

lemma encode_hi: "TextEncoder_encode [0x68, 0x69] = [0x68, 0x69]"
  by (simp add: TextEncoder_encode_def is_lead_def is_trail_def utf8_encode_code_point_def)

theorem encrypt_decrypt_roundtrip_witness:
  "sound_cipher shift_cipher \<and> length [1, 2, 3, 4, 5, 6, 7, 8, 9, 10, 11, 12 :: 8 word] = 12
   \<and> well_formed [0x68, 0x69] \<and> \<not> starts_with_bom [0x68, 0x69]
   \<and> encryptMessage shift_cipher [0x68, 0x69] 7 [1, 2, 3, 4, 5, 6, 7, 8, 9, 10, 11, 12]
       = Inr [1, 2, 3, 4, 5, 6, 7, 8, 9, 10, 11, 12, 0x6F, 0x70, 0x55]
   \<and> decryptMessage shift_cipher [1, 2, 3, 4, 5, 6, 7, 8, 9, 10, 11, 12, 0x6F, 0x70, 0x55] 7
       = Inr [0x68, 0x69]"
proof -
  have w: "well_formed [0x68, 0x69]" by (simp add: is_lead_def is_trail_def)
  have b: "\<not> starts_with_bom [0x68, 0x69]" by (simp add: starts_with_bom_def)
  have l: "length [1, 2, 3, 4, 5, 6, 7, 8, 9, 10, 11, 12 :: 8 word] = 12" by simp
  have e: "encryptMessage shift_cipher [0x68, 0x69] 7 [1, 2, 3, 4, 5, 6, 7, 8, 9, 10, 11, 12]
       = Inr [1, 2, 3, 4, 5, 6, 7, 8, 9, 10, 11, 12, 0x6F, 0x70, 0x55]"
    by (simp add: encryptMessage_def encode_hi shift_cipher_def)
  from encrypt_decrypt_roundtrip [OF sound_shift_cipher l w b e] sound_shift_cipher l w b e
  show ?thesis by simp
qed

text \<open>
  The claim as stated, for every string, fails on a message that begins with U+FEFF:
  \<open>TextDecoder.decode\<close> drops the byte order mark, so U+FEFF \<open>hi\<close> comes back as \<open>hi\<close>.
  It fails on a message with an unpaired surrogate as well: \<open>TextEncoder.encode\<close> writes
  U+FFFD for it, so the string of the one code unit D83D comes back as U+FFFD.
\<close>

lemma encode_bom_hi: "TextEncoder_encode [0xFEFF, 0x68, 0x69] = [0xEF, 0xBB, 0xBF, 0x68, 0x69]"
  by (simp add: TextEncoder_encode_def is_lead_def is_trail_def utf8_encode_code_point_def)

lemma decode_bom_hi: "TextDecoder_decode [0xEF, 0xBB, 0xBF, 0x68, 0x69] = [0x68, 0x69]"
  by (simp add: TextDecoder_decode_def utf8_handler_def utf8_lead_def utf8_initial_def
      drop_bom_def utf16_units_def Let_def)

lemma encode_lone: "TextEncoder_encode [0xD83D] = [0xEF, 0xBF, 0xBD]"
  by (simp add: TextEncoder_encode_def is_lead_def is_trail_def utf8_encode_code_point_def)

lemma decode_lone: "TextDecoder_decode [0xEF, 0xBF, 0xBD] = [0xFFFD]"
  by (simp add: TextDecoder_decode_def utf8_handler_def utf8_lead_def utf8_initial_def
      drop_bom_def utf16_units_def Let_def)

theorem roundtrip_lossy_counterexample:
  "encryptMessage shift_cipher [0xFEFF, 0x68, 0x69] 7 [1, 2, 3, 4, 5, 6, 7, 8, 9, 10, 11, 12]
     = Inr [1, 2, 3, 4, 5, 6, 7, 8, 9, 10, 11, 12, 0xF6, 0xC2, 0xC6, 0x6F, 0x70, 0x55]
   \<and> decryptMessage shift_cipher
        [1, 2, 3, 4, 5, 6, 7, 8, 9, 10, 11, 12, 0xF6, 0xC2, 0xC6, 0x6F, 0x70, 0x55] 7
     = Inr [0x68, 0x69]
   \<and> encryptMessage shift_cipher [0xD83D] 7 [1, 2, 3, 4, 5, 6, 7, 8, 9, 10, 11, 12]
     = Inr [1, 2, 3, 4, 5, 6, 7, 8, 9, 10, 11, 12, 0xF6, 0xC6, 0xC4, 0x55]
   \<and> decryptMessage shift_cipher
        [1, 2, 3, 4, 5, 6, 7, 8, 9, 10, 11, 12, 0xF6, 0xC6, 0xC4, 0x55] 7
     = Inr [0xFFFD]"
  by (simp add: encryptMessage_def decryptMessage_def encode_bom_hi decode_bom_hi
      encode_lone decode_lone shift_cipher_def)

section \<open>Properties of BluetoothService\<close>

subsection \<open>A second connection request\<close>

text \<open>
  Claim C6. In every state whose connections table holds an entry for \<open>peerId\<close>,
  \<open>initiateConnectionToPeer(peerId)\<close> and \<open>connectToPeer(peerId)\<close> return the state as it
  is, and so does a \<open>peer-joined\<close> or \<open>room-joined\<close> announcement of that peer: no
  connection object is created (\<open>nextConnection\<close> and \<open>connections\<close> are the same), no offer
  is prepared or sent (\<open>tasks\<close> and \<open>signalingSent\<close> are the same).
\<close>

theorem connect_existing_is_noop:
  assumes "connections s peerId \<noteq> None"
  shows "initiateConnectionToPeer s peerId = s
       \<and> connectToPeer s peerId = s
       \<and> step s (ConnectToPeer peerId) = s
       \<and> handleSignalingMessage s (PeerJoined peerId) = s
       \<and> handleSignalingMessage s (RoomJoined [peerId]) = s"
  using assms by (simp add: initiateConnectionToPeer_def connectToPeer_def)

lemma negotiating_entry: "connections negotiating ''peer-x'' = Some 0"
  by (simp add: negotiating_def connectToPeer_def initiateConnectionToPeer_def new_service_def init_def)

theorem connect_existing_is_noop_witness:
  "connections negotiating ''peer-x'' \<noteq> None
   \<and> initiateConnectionToPeer negotiating ''peer-x'' = negotiating
   \<and> connectToPeer negotiating ''peer-x'' = negotiating
   \<and> step negotiating (ConnectToPeer ''peer-x'') = negotiating
   \<and> tasks (connectToPeer negotiating ''peer-x'') = [OfferTask ''peer-x'']
   \<and> nextConnection (connectToPeer negotiating ''peer-x'') = 1"
proof -
  have h: "connections negotiating ''peer-x'' \<noteq> None" by (simp add: negotiating_entry)
  have t: "tasks negotiating = [OfferTask ''peer-x'']" "nextConnection negotiating = 1"
    by (simp_all add: negotiating_def connectToPeer_def initiateConnectionToPeer_def new_service_def init_def)
  from connect_existing_is_noop [OF h] h t show ?thesis by simp
qed

subsection \<open>Sending to one peer\<close>

text \<open>
  Claim C7, as amended. When the table holds no open channel for \<open>peerId\<close>, \<open>sendToPeer\<close>
  returns \<open>false\<close> and leaves the state as it is, so nothing is written to any channel.
  When it holds an open channel, \<open>sendToPeer\<close> returns \<open>true\<close> and appends the message to
  that channel alone if the platform's \<open>send\<close> takes the message; if \<open>send\<close> throws, the
  exception is caught, \<open>false\<close> is returned and the state is as it was.
\<close>

theorem sendToPeer_outcome:
  "(open_channel s peerId = None \<longrightarrow> sendToPeer s peerId m = (s, False))
   \<and> (\<forall>ch. open_channel s peerId = Some ch \<longrightarrow>
         (accepts ch m \<longrightarrow>
            sendToPeer s peerId m =
              (s\<lparr>dataChannels := (dataChannels s)(peerId \<mapsto> ch\<lparr>sent := sent ch @ [m]\<rparr>)\<rparr>, True))
         \<and> (\<not> accepts ch m \<longrightarrow> sendToPeer s peerId m = (s, False)))"
  by (auto simp add: open_channel_def sendToPeer_def channel_send_def split: option.splits if_splits)


lemma live_peers: "map fst (peers live) = [''peer-x'']"
  by (simp add: live_def run_def new_service_def init_def onPeerConnected_def notify_def
      sendHandshake_def sendToPeer_def Let_def)

lemma live_channel:
  "dataChannels live ''peer-x'' = Some \<lparr>readyState = Open, accepts = (\<lambda>m. length m \<le> 16), sent = []\<rparr>"
  by (simp add: live_def run_def)

text \<open>
  The claim as stated fails on a connected peer with an open channel whose \<open>send\<close> throws:
  \<open>sendToPeer\<close> returns \<open>false\<close>.
\<close>

theorem sendToPeer_open_channel_counterexample:
  "map fst (peers live) = [''peer-x'']
   \<and> map_option readyState (dataChannels live ''peer-x'') = Some Open
   \<and> snd (sendToPeer live ''peer-x'' ''a text of more than sixteen units'') = False"
  by (simp add: live_peers live_channel sendToPeer_def channel_send_def)

theorem sendToPeer_outcome_witness:
  "open_channel live ''peer-y'' = None
   \<and> sendToPeer live ''peer-y'' ''hello'' = (live, False)
   \<and> open_channel live ''peer-x''
        = Some \<lparr>readyState = Open, accepts = (\<lambda>m. length m \<le> 16), sent = []\<rparr>
   \<and> snd (sendToPeer live ''peer-x'' ''hello'') = True
   \<and> map_option sent (dataChannels (fst (sendToPeer live ''peer-x'' ''hello'')) ''peer-x'')
        = Some [''hello'']
   \<and> sendToPeer live ''peer-x'' ''a text of more than sixteen units'' = (live, False)"
proof -
  have y: "open_channel live ''peer-y'' = None"
    by (simp add: open_channel_def live_def run_def new_service_def init_def onPeerConnected_def
        notify_def sendHandshake_def sendToPeer_def Let_def)
  have x: "open_channel live ''peer-x''
        = Some \<lparr>readyState = Open, accepts = (\<lambda>m. length m \<le> 16), sent = []\<rparr>"
    by (simp add: open_channel_def live_channel)
  from sendToPeer_outcome [of live "''peer-y''" "''hello''"] y
  have 1: "sendToPeer live ''peer-y'' ''hello'' = (live, False)" by simp
  from sendToPeer_outcome [of live "''peer-x''" "''hello''"] x
  have 2: "sendToPeer live ''peer-x'' ''hello'' =
      (live\<lparr>dataChannels := (dataChannels live)(''peer-x'' \<mapsto>
         \<lparr>readyState = Open, accepts = (\<lambda>m. length m \<le> 16), sent = [''hello'']\<rparr>)\<rparr>, True)"
    by simp
  from sendToPeer_outcome [of live "''peer-x''" "''a text of more than sixteen units''"] x
  have 3: "sendToPeer live ''peer-x'' ''a text of more than sixteen units'' = (live, False)"
    by simp
  from y x 1 2 3 show ?thesis by simp
qed

subsection \<open>Broadcast\<close>

lemma sendToPeer_snd: "snd (sendToPeer s p m) = can_send s p m"
  by (simp add: can_send_def open_channel_def sendToPeer_def channel_send_def split: option.splits)

lemma sendToPeer_channels:
  "dataChannels (fst (sendToPeer s p m)) q =
     (if q = p \<and> can_send s p m
      then map_option (\<lambda>ch. ch\<lparr>sent := sent ch @ [m]\<rparr>) (dataChannels s p)
      else dataChannels s q)"
  by (simp add: can_send_def open_channel_def sendToPeer_def channel_send_def split: option.splits)

lemma sendToPeer_frame: "(fst (sendToPeer s p m))\<lparr>dataChannels := dataChannels s\<rparr> = s"
  by (simp add: sendToPeer_def channel_send_def split: option.splits)

lemma can_send_after: "can_send (fst (sendToPeer s p m)) q m = can_send s q m"
proof (cases "dataChannels s p")
  case None
  then show ?thesis by (simp add: sendToPeer_def)
next
  case (Some ch)
  show ?thesis
  proof (cases "readyState ch = Open \<and> accepts ch m")
    case True
    with Some show ?thesis
      by (simp add: can_send_def open_channel_def sendToPeer_def channel_send_def)
  next
    case False
    with Some have "sendToPeer s p m = (s, False)"
      by (auto simp add: sendToPeer_def channel_send_def)
    then show ?thesis by simp
  qed
qed

lemma broadcast_loop_count:
  "snd (broadcast_loop s m ps n) = n + length (filter (\<lambda>p. can_send s p m) ps)"
proof (induction ps arbitrary: s n)
  case Nil
  show ?case by simp
next
  case (Cons p ps)
  obtain s' ok where r: "sendToPeer s p m = (s', ok)" by (cases "sendToPeer s p m")
  then have ok: "ok = can_send s p m" and s': "s' = fst (sendToPeer s p m)"
    using sendToPeer_snd [of s p m] by simp_all
  have same: "(\<lambda>q. can_send s' q m) = (\<lambda>q. can_send s q m)"
    by (simp add: s' can_send_after)
  show ?case by (simp add: r Cons.IH same ok)
qed

lemma broadcast_loop_channels:
  "distinct ps \<Longrightarrow>
   dataChannels (fst (broadcast_loop s m ps n)) q =
     (if q \<in> set ps \<and> can_send s q m
      then map_option (\<lambda>ch. ch\<lparr>sent := sent ch @ [m]\<rparr>) (dataChannels s q)
      else dataChannels s q)"
proof (induction ps arbitrary: s n)
  case Nil
  show ?case by simp
next
  case (Cons p ps)
  obtain s' ok where r: "sendToPeer s p m = (s', ok)" by (cases "sendToPeer s p m")
  then have s': "s' = fst (sendToPeer s p m)" by simp
  from Cons.prems have d: "distinct ps" and np: "p \<notin> set ps" by simp_all
  have c: "can_send s' q m = can_send s q m" by (simp add: s' can_send_after)
  have ch: "dataChannels s' q =
     (if q = p \<and> can_send s p m
      then map_option (\<lambda>ch. ch\<lparr>sent := sent ch @ [m]\<rparr>) (dataChannels s p)
      else dataChannels s q)"
    by (simp add: s' sendToPeer_channels)
  have "dataChannels (fst (broadcast_loop s m (p # ps) n)) q =
      dataChannels (fst (broadcast_loop s' m ps (if ok then n + 1 else n))) q"
    by (simp add: r)
  also have "\<dots> = (if q \<in> set ps \<and> can_send s q m
      then map_option (\<lambda>ch. ch\<lparr>sent := sent ch @ [m]\<rparr>) (dataChannels s' q)
      else dataChannels s' q)"
    by (simp only: Cons.IH [OF d] c)
  also have "\<dots> = (if q \<in> set (p # ps) \<and> can_send s q m
      then map_option (\<lambda>ch. ch\<lparr>sent := sent ch @ [m]\<rparr>) (dataChannels s q)
      else dataChannels s q)"
  proof (cases "q = p")
    case True
    with np have "q \<notin> set ps" by simp
    then show ?thesis using ch True by simp
  next
    case False
    then show ?thesis by (simp add: ch)
  qed
  finally show ?case .
qed

lemma broadcast_loop_frame:
  "(fst (broadcast_loop s m ps n))\<lparr>dataChannels := dataChannels s\<rparr> = s"
proof (induction ps arbitrary: s n)
  case Nil
  show ?case by simp
next
  case (Cons p ps)
  obtain s' ok where r: "sendToPeer s p m = (s', ok)" by (cases "sendToPeer s p m")
  define X where "X = fst (broadcast_loop s' m ps (if ok then n + 1 else n))"
  have fr: "s'\<lparr>dataChannels := dataChannels s\<rparr> = s"
    using sendToPeer_frame [of s p m] by (simp add: r)
  have "X\<lparr>dataChannels := dataChannels s'\<rparr> = s'"
    unfolding X_def by (rule Cons.IH)
  then have "(X\<lparr>dataChannels := dataChannels s'\<rparr>)\<lparr>dataChannels := dataChannels s\<rparr> =
      s'\<lparr>dataChannels := dataChannels s\<rparr>"
    by (rule arg_cong)
  then have "X\<lparr>dataChannels := dataChannels s\<rparr> = s"
    by (simp add: fr)
  moreover have "fst (broadcast_loop s m (p # ps) n) = X"
    by (simp add: r X_def)
  ultimately show ?case by simp
qed

text \<open>
  Claim C8. For a peers table (a \<open>Map\<close>, so its keys are distinct), \<open>broadcastMessage\<close>
  returns the number of peers for which \<open>sendToPeer\<close> returns \<open>true\<close>; on the channel of
  every peer of the table it has the effect that \<open>sendToPeer\<close> to that peer alone has,
  whatever happened with the peers before it; it changes nothing else; and it returns a
  count in every case, never an error.
\<close>

theorem broadcastMessage_counts_successes:
  assumes "distinct (map fst (peers s))"
  shows "snd (broadcastMessage s m)
           = length (filter (\<lambda>p. snd (sendToPeer s p m)) (map fst (peers s)))
       \<and> (\<forall>p. dataChannels (fst (broadcastMessage s m)) p =
                (if p \<in> fst ` set (peers s) then dataChannels (fst (sendToPeer s p m)) p
                 else dataChannels s p))
       \<and> (fst (broadcastMessage s m))\<lparr>dataChannels := dataChannels s\<rparr> = s"
proof -
  have count: "snd (broadcastMessage s m)
           = length (filter (\<lambda>p. snd (sendToPeer s p m)) (map fst (peers s)))"
    by (simp add: broadcastMessage_def broadcast_loop_count sendToPeer_snd)
  have chans: "dataChannels (fst (broadcastMessage s m)) p =
                (if p \<in> fst ` set (peers s) then dataChannels (fst (sendToPeer s p m)) p
                 else dataChannels s p)" for p
    using assms by (simp add: broadcastMessage_def broadcast_loop_channels sendToPeer_channels)
  have frame: "(fst (broadcastMessage s m))\<lparr>dataChannels := dataChannels s\<rparr> = s"
    by (simp add: broadcastMessage_def broadcast_loop_frame)
  from count chans frame show ?thesis by simp
qed



lemma four_peers_keys: "map fst (peers four_peers) = [''peer-a'', ''peer-b'', ''peer-c'', ''peer-d'']"
  by (simp add: four_peers_def run_def new_service_def init_def onPeerConnected_def notify_def
      sendHandshake_def sendToPeer_def Let_def)

lemma four_peers_channels:
  "dataChannels four_peers ''peer-a'' = Some \<lparr>readyState = Open, accepts = (\<lambda>m. length m \<le> 16), sent = []\<rparr>"
  "dataChannels four_peers ''peer-b'' = Some \<lparr>readyState = Open, accepts = (\<lambda>m. length m \<le> 2), sent = []\<rparr>"
  "dataChannels four_peers ''peer-c'' = None"
  "dataChannels four_peers ''peer-d'' = Some \<lparr>readyState = Open, accepts = (\<lambda>m. length m \<le> 16), sent = []\<rparr>"
  by (simp_all add: four_peers_def run_def new_service_def init_def onPeerConnected_def notify_def
      sendHandshake_def sendToPeer_def Let_def)

theorem broadcastMessage_counts_successes_witness:
  "distinct (map fst (peers four_peers))
   \<and> map fst (peers four_peers) = [''peer-a'', ''peer-b'', ''peer-c'', ''peer-d'']
   \<and> snd (broadcastMessage four_peers ''hello'') = 2
   \<and> map_option sent (dataChannels (fst (broadcastMessage four_peers ''hello'')) ''peer-a'') = Some [''hello'']
   \<and> map_option sent (dataChannels (fst (broadcastMessage four_peers ''hello'')) ''peer-b'') = Some []
   \<and> dataChannels (fst (broadcastMessage four_peers ''hello'')) ''peer-c'' = None
   \<and> map_option sent (dataChannels (fst (broadcastMessage four_peers ''hello'')) ''peer-d'') = Some [''hello'']"
proof -
  have d: "distinct (map fst (peers four_peers))" by (simp add: four_peers_keys)
  have img: "fst ` set (peers four_peers) = {''peer-a'', ''peer-b'', ''peer-c'', ''peer-d''}"
    using four_peers_keys by (metis list.set_map list.simps(15) empty_set)
  note b = broadcastMessage_counts_successes [OF d, of "''hello''"]
  have n: "snd (broadcastMessage four_peers ''hello'') = 2"
    using b by (simp add: four_peers_keys sendToPeer_def channel_send_def four_peers_channels)
  have ch: "dataChannels (fst (broadcastMessage four_peers ''hello'')) p =
     (if p \<in> {''peer-a'', ''peer-b'', ''peer-c'', ''peer-d''}
      then dataChannels (fst (sendToPeer four_peers p ''hello'')) p
      else dataChannels four_peers p)" for p
    using b img by simp
  show ?thesis
    by (simp add: d four_peers_keys n ch sendToPeer_def channel_send_def four_peers_channels)
qed

text \<open>
  The hypothesis of the theorem holds in every state the service reaches: the table is
  only changed by \<open>Map.set\<close>, \<open>Map.delete\<close> and \<open>Map.clear\<close>.
\<close>

lemma peers_sendToPeer: "peers (fst (sendToPeer s p m)) = peers s"
  by (simp add: sendToPeer_def channel_send_def split: option.splits)

lemma peers_broadcast_loop: "peers (fst (broadcast_loop s m ps n)) = peers s"
proof (induction ps arbitrary: s n)
  case Nil
  show ?case by simp
next
  case (Cons p ps)
  obtain s' ok where r: "sendToPeer s p m = (s', ok)" by (cases "sendToPeer s p m")
  with peers_sendToPeer [of s p m] have "peers s' = peers s" by simp
  with r show ?case by (simp add: Cons.IH)
qed

lemma peers_onPeerConnected:
  "map fst (peers (onPeerConnected s p)) =
     (if p \<in> set (map fst (peers s)) then map fst (peers s) else map fst (peers s) @ [p])"
  by (simp add: onPeerConnected_def Let_def sendHandshake_def notify_def peers_sendToPeer
      update_keys)

lemma peers_onPeerDisconnected:
  "peers (onPeerDisconnected s p) = AList.delete p (peers s)"
  by (simp add: onPeerDisconnected_def notify_def)

lemma keys_touch_peer: "map fst (peers (touch_peer s p)) = map fst (peers s)"
proof (cases "map_of (peers s) p")
  case None
  then show ?thesis by (simp add: touch_peer_def)
next
  case (Some peer)
  then have "p \<in> set (map fst (peers s))"
    by (metis map_of_SomeD list.set_map image_eqI fst_conv)
  with Some show ?thesis by (simp add: touch_peer_def update_keys)
qed

lemma keys_handleHandshake: "map fst (peers (handleHandshake s p n)) = map fst (peers s)"
proof (cases "map_of (peers s) p")
  case None
  then show ?thesis by (simp add: handleHandshake_def notify_def)
next
  case (Some peer)
  then have "p \<in> set (map fst (peers s))"
    by (metis map_of_SomeD list.set_map image_eqI fst_conv)
  with Some show ?thesis by (simp add: handleHandshake_def notify_def update_keys)
qed

lemma keys_handleIncomingMessage:
  "map fst (peers (handleIncomingMessage s p m)) = map fst (peers s)"
  by (cases m) (simp_all add: keys_touch_peer keys_handleHandshake notify_def)

lemma peers_initiate_each: "peers (initiate_each s ps) = peers s"
  by (induction ps arbitrary: s) (simp_all add: initiateConnectionToPeer_def)

lemma peers_handleSignalingMessage:
  "distinct (map fst (peers s)) \<Longrightarrow> distinct (map fst (peers (handleSignalingMessage s m)))"
  by (cases m) (simp_all add: initiateConnectionToPeer_def peers_initiate_each
      peers_onPeerDisconnected distinct_delete handleWebRTCSignaling_def handleIncomingOffer_def
      split: option.splits signaling_message.splits)

lemma peers_fire:
  "distinct (map fst (peers s)) \<Longrightarrow> distinct (map fst (peers (fire s t)))"
  by (cases t) (simp_all add: simulatePeerDiscovery_def discover_simulated_def notify_def
      peers_onPeerConnected Let_def split: prod.splits)

lemma peers_resume: "peers (resume s t r) = peers s"
  by (cases t; cases r) (simp_all add: sendSignalingMessage_def signalingWs_def)

lemma step_distinct_peers:
  assumes "distinct (map fst (peers s))"
  shows "distinct (map fst (peers (step s e)))"
proof (cases e)
  case (ProbeResolved h w)
  with assms show ?thesis by (simp add: initWithFallback_def setupSignaling_def Let_def)
next
  case (WsOpen i)
  with assms show ?thesis by (simp add: ws_onopen_def joinSignalingRoom_def signalingWs_def)
next
  case (WsMessage i m)
  with assms show ?thesis by (simp add: peers_handleSignalingMessage)
next
  case (WsClose i)
  with assms show ?thesis by (simp add: ws_onclose_def)
next
  case (TimerFired t)
  have "distinct (map fst (peers (s\<lparr>timers := ts\<rparr>)))" for ts using assms by simp
  with TimerFired assms show ?thesis by (simp add: peers_fire)
next
  case IntervalFired
  with assms show ?thesis by (simp add: scan_interval_def simulatePeerDiscovery_def)
next
  case (TaskSettled t r)
  with assms show ?thesis by (simp add: peers_resume)
next
  case (ConnectionStateChange p st)
  with assms show ?thesis
    by (simp add: peers_onPeerConnected peers_onPeerDisconnected distinct_delete)
next
  case (ChannelReadyState p rs)
  with assms show ?thesis by (simp split: option.splits)
next
  case StartScanning
  with assms show ?thesis by (simp add: startScanning_def startPeerDiscovery_def notify_def)
next
  case StopScanning
  with assms show ?thesis by (simp add: stopScanning_def notify_def)
next
  case (ConnectToPeer p)
  with assms show ?thesis by (simp add: connectToPeer_def initiateConnectionToPeer_def)
next
  case (DisconnectFromPeer p)
  with assms show ?thesis
    by (simp add: disconnectFromPeer_def peers_onPeerDisconnected distinct_delete)
next
  case DisconnectAll
  with assms show ?thesis by (simp add: disconnectAll_def)
next
  case (SendToPeer p m)
  with assms show ?thesis by (simp add: peers_sendToPeer)
next
  case (BroadcastMessage m)
  with assms show ?thesis by (simp add: broadcastMessage_def peers_broadcast_loop)
next
  case (LocalCandidate p c)
  with assms show ?thesis
    by (simp add: onicecandidate_def sendSignalingMessage_def signalingWs_def split: option.splits)
next
  case (ChannelMessage p m)
  with assms show ?thesis by (simp add: keys_handleIncomingMessage)
qed (use assms in \<open>simp_all add: setDelegate_def setMyNickname_def startAdvertising_def
    stopAdvertising_def init_def simulatePeerDiscovery_def\<close>)

lemma reachable_distinct_peers:
  "distinct (map fst (peers (run (new_service my_id room) es)))"
proof (induction es rule: rev_induct)
  case Nil
  show ?case by (simp add: run_def new_service_def init_def)
next
  case (snoc e es)
  then show ?case by (simp add: run_def step_distinct_peers)
qed

subsection \<open>The signaling socket and the connections table under the handlers\<close>

lemma signalingWs_sockets: "sockets s' = sockets s \<Longrightarrow> signalingWs s' = signalingWs s"
  by (simp add: signalingWs_def)

lemma sockets_initiate: "sockets (initiateConnectionToPeer s p) = sockets s"
  by (simp add: initiateConnectionToPeer_def)

lemma connections_initiate:
  "connections s x = Some c \<Longrightarrow> connections (initiateConnectionToPeer s p) x = Some c"
  by (auto simp add: initiateConnectionToPeer_def)

lemma connections_initiate_each:
  "connections s x = Some c \<Longrightarrow> connections (initiate_each s ps) x = Some c"
  by (induction ps arbitrary: s) (simp_all add: connections_initiate)

subsection \<open>Who initiates\<close>

lemma initiate_each_frame:
  "myId (initiate_each s ps) = myId s \<and> sockets (initiate_each s ps) = sockets s
   \<and> signalingSent (initiate_each s ps) = signalingSent s"
  by (induction ps arbitrary: s) (simp_all add: initiateConnectionToPeer_def)

lemma initiate_each_keeps_task:
  "t \<in> set (tasks s) \<Longrightarrow> t \<in> set (tasks (initiate_each s ps))"
  by (induction ps arbitrary: s) (simp_all add: initiateConnectionToPeer_def)

lemma initiate_each_keeps_channel:
  "ch \<in> set (createdChannels s) \<Longrightarrow> ch \<in> set (createdChannels (initiate_each s ps))"
  by (induction ps arbitrary: s) (simp_all add: initiateConnectionToPeer_def)

lemma initiate_each_grows: "nextConnection s \<le> nextConnection (initiate_each s ps)"
proof (induction ps arbitrary: s)
  case Nil
  show ?case by simp
next
  case (Cons q ps)
  have "nextConnection s \<le> nextConnection (if q \<noteq> myId s then initiateConnectionToPeer s q else s)"
    by (simp add: initiateConnectionToPeer_def)
  also have "\<dots> \<le> nextConnection (initiate_each (if q \<noteq> myId s then initiateConnectionToPeer s q else s) ps)"
    by (rule Cons.IH)
  finally show ?case by simp
qed

text \<open>
  The loop over the member list starts a negotiation with every announced peer other than
  the service itself for which the table has no entry: a connection that did not exist
  before, a data channel created on it for the peer, and a pending offer.
\<close>

lemma initiate_each_starts:
  "p \<in> set ps \<Longrightarrow> p \<noteq> myId s \<Longrightarrow> connections s p = None \<Longrightarrow>
   (\<exists>c\<ge>nextConnection s. connections (initiate_each s ps) p = Some c
        \<and> c < nextConnection (initiate_each s ps)
        \<and> (c, p) \<in> set (createdChannels (initiate_each s ps)))
   \<and> OfferTask p \<in> set (tasks (initiate_each s ps))"
proof (induction ps arbitrary: s)
  case Nil
  then show ?case by simp
next
  case (Cons q ps)
  show ?case
  proof (cases "q = p")
    case True
    let ?s1 = "initiateConnectionToPeer s p"
    from Cons.prems have c: "connections ?s1 p = Some (nextConnection s)"
      and ch: "(nextConnection s, p) \<in> set (createdChannels ?s1)"
      and tk: "OfferTask p \<in> set (tasks ?s1)"
      and nx: "nextConnection ?s1 = Suc (nextConnection s)"
      by (simp_all add: initiateConnectionToPeer_def)
    from True Cons.prems have e: "initiate_each s (q # ps) = initiate_each ?s1 ps" by simp
    have "connections (initiate_each ?s1 ps) p = Some (nextConnection s)"
      using c by (rule connections_initiate_each)
    moreover have "(nextConnection s, p) \<in> set (createdChannels (initiate_each ?s1 ps))"
      using ch by (rule initiate_each_keeps_channel)
    moreover have "OfferTask p \<in> set (tasks (initiate_each ?s1 ps))"
      using tk by (rule initiate_each_keeps_task)
    moreover have "nextConnection s < nextConnection (initiate_each ?s1 ps)"
      using initiate_each_grows [of ?s1 ps] nx by simp
    ultimately show ?thesis unfolding e by auto
  next
    case False
    let ?s1 = "if q \<noteq> myId s then initiateConnectionToPeer s q else s"
    from False Cons.prems have "p \<in> set ps" by simp
    moreover have "p \<noteq> myId ?s1"
      using Cons.prems by (simp add: initiateConnectionToPeer_def)
    moreover have "connections ?s1 p = None"
      using Cons.prems False by (simp add: initiateConnectionToPeer_def)
    ultimately have ih: "(\<exists>c\<ge>nextConnection ?s1. connections (initiate_each ?s1 ps) p = Some c
        \<and> c < nextConnection (initiate_each ?s1 ps)
        \<and> (c, p) \<in> set (createdChannels (initiate_each ?s1 ps)))
      \<and> OfferTask p \<in> set (tasks (initiate_each ?s1 ps))"
      by (rule Cons.IH)
    have le: "nextConnection s \<le> nextConnection ?s1" by (simp add: initiateConnectionToPeer_def)
    from ih obtain c where c: "nextConnection ?s1 \<le> c"
      "connections (initiate_each ?s1 ps) p = Some c"
      "c < nextConnection (initiate_each ?s1 ps)"
      "(c, p) \<in> set (createdChannels (initiate_each ?s1 ps))" by blast
    from le c(1) have "nextConnection s \<le> c" by simp
    with c ih show ?thesis by auto
  qed
qed

text \<open>
  With an entry for \<open>p\<close> in the table, the loop over the member list starts nothing toward
  \<open>p\<close>: no offer to \<open>p\<close> is prepared and no channel for \<open>p\<close> is created.
\<close>

lemma initiate_each_skips:
  "connections s p \<noteq> None \<Longrightarrow>
   connections (initiate_each s ps) p = connections s p
   \<and> filter (\<lambda>t. t = OfferTask p) (tasks (initiate_each s ps)) = filter (\<lambda>t. t = OfferTask p) (tasks s)
   \<and> filter (\<lambda>ch. snd ch = p) (createdChannels (initiate_each s ps))
       = filter (\<lambda>ch. snd ch = p) (createdChannels s)"
proof (induction ps arbitrary: s)
  case Nil
  show ?case by simp
next
  case (Cons q ps)
  let ?s1 = "if q \<noteq> myId s then initiateConnectionToPeer s q else s"
  have k: "connections ?s1 p = connections s p"
    using Cons.prems by (auto simp add: initiateConnectionToPeer_def)
  have t: "filter (\<lambda>t. t = OfferTask p) (tasks ?s1) = filter (\<lambda>t. t = OfferTask p) (tasks s)"
    using Cons.prems by (auto simp add: initiateConnectionToPeer_def)
  have ch: "filter (\<lambda>ch. snd ch = p) (createdChannels ?s1) = filter (\<lambda>ch. snd ch = p) (createdChannels s)"
    using Cons.prems by (auto simp add: initiateConnectionToPeer_def)
  from k Cons.prems have "connections ?s1 p \<noteq> None" by simp
  from Cons.IH [OF this] k t ch show ?case by simp
qed

lemma settle_offer_sends:
  assumes "OfferTask p \<in> set (tasks s)" "signalingWs s = WsOpened"
  shows "signalingSent (step s (TaskSettled (OfferTask p) (Some d))) = signalingSent s @ [Offer (myId s) p d]"
proof -
  have "signalingWs (s\<lparr>tasks := remove1 (OfferTask p) (tasks s)\<rparr>) = signalingWs s"
    by (rule signalingWs_sockets) simp
  with assms(2) have "signalingWs (s\<lparr>tasks := remove1 (OfferTask p) (tasks s)\<rparr>) = WsOpened"
    by simp
  with assms(1) show ?thesis by (simp add: sendSignalingMessage_def signalingWs_def)
qed

text \<open>
  Claim C3, as amended. The service has no tie-break on peer ids. \<open>A\<close> and \<open>B\<close> are two
  services with different ids, each with an open signaling socket (the one its messages
  arrive on, \<open>i\<close> and \<open>j\<close>, and the one it sends on); \<open>B\<close> joins the room of \<open>A\<close>, so \<open>A\<close> is
  told by \<open>peer-joined\<close> and \<open>B\<close> by a \<open>room-joined\<close> whose member list has \<open>A\<close>.

  A side that holds no connection for the other becomes an initiator, whatever the two
  ids are: it stores a connection that did not exist before, creates a data channel on
  that connection for the other peer, prepares an offer, and sends the offer once
  \<open>createOffer\<close> has settled.

  A side that holds a connection for the other does not initiate: for \<open>A\<close> the
  \<open>peer-joined\<close> event changes nothing; for \<open>B\<close> the \<open>room-joined\<close> event keeps the
  connection, prepares no offer to \<open>A\<close>, creates no channel for \<open>A\<close> and sends nothing.
  This is the case when the offer of the other side has arrived first, which stores a
  connection for it.
\<close>

theorem both_sides_initiate:
  assumes "i < length (sockets A)" and "sockets A ! i = WsOpened" and "signalingWs A = WsOpened"
    and "j < length (sockets B)" and "sockets B ! j = WsOpened" and "signalingWs B = WsOpened"
    and "myId A \<noteq> myId B" and "myId A \<in> set members"
  shows "(connections A (myId B) = None \<longrightarrow>
            (let A1 = step A (WsMessage i (PeerJoined (myId B))) in
               connections A1 (myId B) = Some (nextConnection A)
             \<and> nextConnection A1 = Suc (nextConnection A)
             \<and> createdChannels A1 = createdChannels A @ [(nextConnection A, myId B)]
             \<and> tasks A1 = tasks A @ [OfferTask (myId B)]
             \<and> signalingSent (step A1 (TaskSettled (OfferTask (myId B)) (Some offer_a)))
                 = signalingSent A @ [Offer (myId A) (myId B) offer_a]))
       \<and> (connections B (myId A) = None \<longrightarrow>
            (let B1 = step B (WsMessage j (RoomJoined members)) in
               (\<exists>c\<ge>nextConnection B. connections B1 (myId A) = Some c
                    \<and> c < nextConnection B1 \<and> (c, myId A) \<in> set (createdChannels B1))
             \<and> OfferTask (myId A) \<in> set (tasks B1)
             \<and> signalingSent (step B1 (TaskSettled (OfferTask (myId A)) (Some offer_b)))
                 = signalingSent B @ [Offer (myId B) (myId A) offer_b]))
       \<and> (connections A (myId B) \<noteq> None \<longrightarrow>
            step A (WsMessage i (PeerJoined (myId B))) = A)
       \<and> (connections B (myId A) \<noteq> None \<longrightarrow>
            (let B1 = step B (WsMessage j (RoomJoined members)) in
               connections B1 (myId A) = connections B (myId A)
             \<and> filter (\<lambda>t. t = OfferTask (myId A)) (tasks B1)
                 = filter (\<lambda>t. t = OfferTask (myId A)) (tasks B)
             \<and> filter (\<lambda>ch. snd ch = myId A) (createdChannels B1)
                 = filter (\<lambda>ch. snd ch = myId A) (createdChannels B)
             \<and> signalingSent B1 = signalingSent B))
       \<and> (connections A (myId B) = None \<longrightarrow>
            (let A2 = step A (WsMessage i (Offer (myId B) (myId A) offer_b)) in
               connections A2 (myId B) = Some (nextConnection A)
             \<and> step A2 (WsMessage i (PeerJoined (myId B))) = A2))"
proof -
  let ?A1 = "step A (WsMessage i (PeerJoined (myId B)))"
  let ?B1 = "step B (WsMessage j (RoomJoined members))"
  let ?A2 = "step A (WsMessage i (Offer (myId B) (myId A) offer_b))"
  have a1: "?A1 = initiateConnectionToPeer A (myId B)"
    using assms(1,2,7) by simp
  have b1: "?B1 = initiate_each B members"
    using assms(4,5) by simp
  have "signalingWs ?B1 = signalingWs B"
    unfolding b1 by (rule signalingWs_sockets) (simp add: initiate_each_frame)
  with assms(6) have fb: "signalingWs ?B1 = WsOpened" "signalingSent ?B1 = signalingSent B"
    "myId ?B1 = myId B"
    by (simp_all add: b1 initiate_each_frame)
  have first: "let A1 = ?A1 in
               connections A1 (myId B) = Some (nextConnection A)
             \<and> nextConnection A1 = Suc (nextConnection A)
             \<and> createdChannels A1 = createdChannels A @ [(nextConnection A, myId B)]
             \<and> tasks A1 = tasks A @ [OfferTask (myId B)]
             \<and> signalingSent (step A1 (TaskSettled (OfferTask (myId B)) (Some offer_a)))
                 = signalingSent A @ [Offer (myId A) (myId B) offer_a]"
    if none: "connections A (myId B) = None"
  proof -
    have "signalingWs ?A1 = signalingWs A"
      unfolding a1 by (rule signalingWs_sockets) (rule sockets_initiate)
    with assms(3) have ws: "signalingWs ?A1 = WsOpened" by simp
    have ta: "OfferTask (myId B) \<in> set (tasks ?A1)"
      "signalingSent ?A1 = signalingSent A" "myId ?A1 = myId A"
      unfolding a1 using none by (simp_all add: initiateConnectionToPeer_def)
    have st: "connections ?A1 (myId B) = Some (nextConnection A)"
      "nextConnection ?A1 = Suc (nextConnection A)"
      "createdChannels ?A1 = createdChannels A @ [(nextConnection A, myId B)]"
      "tasks ?A1 = tasks A @ [OfferTask (myId B)]"
      unfolding a1 using none by (simp_all add: initiateConnectionToPeer_def)
    have "signalingSent (step ?A1 (TaskSettled (OfferTask (myId B)) (Some offer_a)))
        = signalingSent A @ [Offer (myId A) (myId B) offer_a]"
      using settle_offer_sends [OF ta(1) ws] ta(2,3) by simp
    with st show ?thesis by (simp only: Let_def; simp)
  qed
  have second: "let B1 = ?B1 in
               (\<exists>c\<ge>nextConnection B. connections B1 (myId A) = Some c
                    \<and> c < nextConnection B1 \<and> (c, myId A) \<in> set (createdChannels B1))
             \<and> OfferTask (myId A) \<in> set (tasks B1)
             \<and> signalingSent (step B1 (TaskSettled (OfferTask (myId A)) (Some offer_b)))
                 = signalingSent B @ [Offer (myId B) (myId A) offer_b]"
    if none: "connections B (myId A) = None"
  proof -
    have s: "(\<exists>c\<ge>nextConnection B. connections ?B1 (myId A) = Some c
                  \<and> c < nextConnection ?B1
                  \<and> (c, myId A) \<in> set (createdChannels ?B1))
             \<and> OfferTask (myId A) \<in> set (tasks ?B1)"
      unfolding b1 using assms(7,8) none by (intro initiate_each_starts) auto
    have "signalingSent (step ?B1 (TaskSettled (OfferTask (myId A)) (Some offer_b)))
        = signalingSent B @ [Offer (myId B) (myId A) offer_b]"
      using settle_offer_sends [OF conjunct2 [OF s] fb(1)] fb(2,3) by simp
    with s show ?thesis by (simp only: Let_def; simp)
  qed
  have third: "?A1 = A" if "connections A (myId B) \<noteq> None"
    unfolding a1 using that by (simp add: initiateConnectionToPeer_def)
  have fourth: "let B1 = ?B1 in
               connections B1 (myId A) = connections B (myId A)
             \<and> filter (\<lambda>t. t = OfferTask (myId A)) (tasks B1)
                 = filter (\<lambda>t. t = OfferTask (myId A)) (tasks B)
             \<and> filter (\<lambda>ch. snd ch = myId A) (createdChannels B1)
                 = filter (\<lambda>ch. snd ch = myId A) (createdChannels B)
             \<and> signalingSent B1 = signalingSent B"
    if "connections B (myId A) \<noteq> None"
    using initiate_each_skips [OF that, of members] fb(2) by (simp only: Let_def b1; simp)
  have fifth: "let A2 = ?A2 in
               connections A2 (myId B) = Some (nextConnection A)
             \<and> step A2 (WsMessage i (PeerJoined (myId B))) = A2"
    if none: "connections A (myId B) = None"
  proof -
    have a2: "?A2 = handleIncomingOffer A (myId B)"
      using assms(1,2) none by (simp add: handleWebRTCSignaling_def)
    have k: "connections ?A2 (myId B) = Some (nextConnection A)"
      and so: "sockets ?A2 = sockets A" and me: "myId ?A2 = myId A"
      unfolding a2 by (simp_all add: handleIncomingOffer_def)
    have "step ?A2 (WsMessage i (PeerJoined (myId B))) = ?A2"
      using assms(1,2,7) k so me by (simp add: initiateConnectionToPeer_def)
    with k show ?thesis by (simp only: Let_def; simp)
  qed
  show ?thesis
    by (intro conjI impI) (erule first, erule second, erule third, erule fourth, erule fifth)
qed

lemma side_a_facts:
  "myId side_a = ''me-aaa''" "sockets side_a = [WsOpened]" "connections side_a = Map.empty"
  "signalingSent side_a = [Join ''bitchat-room'' ''me-aaa'']" "nextConnection side_a = 0"
  "createdChannels side_a = []" "tasks side_a = []"
  by (simp_all add: side_a_def run_def new_service_def init_def initWithFallback_def
      setupSignaling_def ws_onopen_def joinSignalingRoom_def signalingWs_def Let_def)

lemma side_b_facts:
  "myId side_b = ''me-bbb''" "sockets side_b = [WsOpened]" "connections side_b = Map.empty"
  "signalingSent side_b = [Join ''bitchat-room'' ''me-bbb'']" "nextConnection side_b = 0"
  "createdChannels side_b = []" "tasks side_b = []"
  by (simp_all add: side_b_def run_def new_service_def init_def initWithFallback_def
      setupSignaling_def ws_onopen_def joinSignalingRoom_def signalingWs_def Let_def)

lemma offered_facts:
  "myId offered = ''me-bbb''" "sockets offered = [WsOpened]"
  "connections offered ''me-aaa'' = Some 0" "tasks offered = [AnswerTask ''me-aaa'' True]"
  "createdChannels offered = []"
  "signalingSent offered = [Join ''bitchat-room'' ''me-bbb'']"
  by (simp_all add: offered_def run_def side_b_facts handleWebRTCSignaling_def
      handleIncomingOffer_def)

theorem both_sides_initiate_witness:
  "0 < length (sockets side_a) \<and> sockets side_a ! 0 = WsOpened \<and> signalingWs side_a = WsOpened
   \<and> 0 < length (sockets side_b) \<and> sockets side_b ! 0 = WsOpened \<and> signalingWs side_b = WsOpened
   \<and> 0 < length (sockets offered) \<and> sockets offered ! 0 = WsOpened \<and> signalingWs offered = WsOpened
   \<and> myId side_a \<noteq> myId side_b \<and> myId side_a \<noteq> myId offered
   \<and> myId side_a \<in> set [''me-ccc'', ''me-aaa'']
   \<and> connections side_a (myId side_b) = None \<and> connections side_b (myId side_a) = None
   \<and> connections (step side_a (WsMessage 0 (PeerJoined ''me-bbb''))) ''me-bbb'' = Some 0
   \<and> createdChannels (step side_a (WsMessage 0 (PeerJoined ''me-bbb''))) = [(0, ''me-bbb'')]
   \<and> signalingSent (run side_a [WsMessage 0 (PeerJoined ''me-bbb''),
                                 TaskSettled (OfferTask ''me-bbb'') (Some ''sdp-a'')])
        = [Join ''bitchat-room'' ''me-aaa'', Offer ''me-aaa'' ''me-bbb'' ''sdp-a'']
   \<and> connections (step side_b (WsMessage 0 (RoomJoined [''me-ccc'', ''me-aaa'']))) ''me-aaa'' = Some 1
   \<and> createdChannels (step side_b (WsMessage 0 (RoomJoined [''me-ccc'', ''me-aaa''])))
        = [(0, ''me-ccc''), (1, ''me-aaa'')]
   \<and> signalingSent (run side_b [WsMessage 0 (RoomJoined [''me-ccc'', ''me-aaa'']),
                                 TaskSettled (OfferTask ''me-aaa'') (Some ''sdp-b'')])
        = [Join ''bitchat-room'' ''me-bbb'', Offer ''me-bbb'' ''me-aaa'' ''sdp-b'']
   \<and> connections offered (myId side_a) \<noteq> None
   \<and> connections (step offered (WsMessage 0 (RoomJoined [''me-ccc'', ''me-aaa'']))) ''me-aaa'' = Some 0
   \<and> filter (\<lambda>t. t = OfferTask ''me-aaa'')
        (tasks (step offered (WsMessage 0 (RoomJoined [''me-ccc'', ''me-aaa''])))) = []
   \<and> filter (\<lambda>ch. snd ch = ''me-aaa'')
        (createdChannels (step offered (WsMessage 0 (RoomJoined [''me-ccc'', ''me-aaa''])))) = []
   \<and> step offered (WsMessage 0 (PeerJoined ''me-aaa'')) = offered
   \<and> connections (step side_a (WsMessage 0 (Offer ''me-bbb'' ''me-aaa'' ''sdp-b''))) ''me-bbb'' = Some 0
   \<and> step (step side_a (WsMessage 0 (Offer ''me-bbb'' ''me-aaa'' ''sdp-b'')))
        (WsMessage 0 (PeerJoined ''me-bbb''))
        = step side_a (WsMessage 0 (Offer ''me-bbb'' ''me-aaa'' ''sdp-b''))"
proof -
  have h: "0 < length (sockets side_a)" "sockets side_a ! 0 = WsOpened" "signalingWs side_a = WsOpened"
    "0 < length (sockets side_b)" "sockets side_b ! 0 = WsOpened" "signalingWs side_b = WsOpened"
    "myId side_a \<noteq> myId side_b" "myId side_a \<in> set [''me-ccc'', ''me-aaa'']"
    by (simp_all add: side_a_facts side_b_facts signalingWs_def)
  have g: "0 < length (sockets offered)" "sockets offered ! 0 = WsOpened" "signalingWs offered = WsOpened"
    "myId side_a \<noteq> myId offered"
    by (simp_all add: side_a_facts offered_facts signalingWs_def)
  have n: "connections side_a (myId side_b) = None" "connections side_b (myId side_a) = None"
    "connections offered (myId side_a) \<noteq> None"
    by (simp_all add: side_a_facts side_b_facts offered_facts)
  note t1 = both_sides_initiate [OF h, of "''sdp-a''" "''sdp-b''"]
  note t2 = both_sides_initiate [OF h(1,2,3) g h(8), of "''sdp-a''" "''sdp-b''"]
  have b1: "step side_b (WsMessage 0 (RoomJoined [''me-ccc'', ''me-aaa'']))
      = initiateConnectionToPeer (initiateConnectionToPeer side_b ''me-ccc'') ''me-aaa''"
    by (simp add: side_b_facts initiateConnectionToPeer_def)
  have b2: "connections (step side_b (WsMessage 0 (RoomJoined [''me-ccc'', ''me-aaa'']))) ''me-aaa'' = Some 1"
    "createdChannels (step side_b (WsMessage 0 (RoomJoined [''me-ccc'', ''me-aaa''])))
        = [(0, ''me-ccc''), (1, ''me-aaa'')]"
    unfolding b1 by (simp_all add: side_b_facts initiateConnectionToPeer_def)
  from t1 n(1,2) have a:
    "connections (step side_a (WsMessage 0 (PeerJoined ''me-bbb''))) ''me-bbb'' = Some 0
     \<and> createdChannels (step side_a (WsMessage 0 (PeerJoined ''me-bbb''))) = [(0, ''me-bbb'')]
     \<and> signalingSent (step (step side_a (WsMessage 0 (PeerJoined ''me-bbb'')))
          (TaskSettled (OfferTask ''me-bbb'') (Some ''sdp-a'')))
          = [Join ''bitchat-room'' ''me-aaa'', Offer ''me-aaa'' ''me-bbb'' ''sdp-a'']
     \<and> signalingSent (step (step side_b (WsMessage 0 (RoomJoined [''me-ccc'', ''me-aaa''])))
          (TaskSettled (OfferTask ''me-aaa'') (Some ''sdp-b'')))
          = [Join ''bitchat-room'' ''me-bbb'', Offer ''me-bbb'' ''me-aaa'' ''sdp-b'']"
    by (simp add: Let_def side_a_facts side_b_facts del: step.simps)
  from t2 n(3) have o:
    "connections (step offered (WsMessage 0 (RoomJoined [''me-ccc'', ''me-aaa'']))) ''me-aaa'' = Some 0
     \<and> filter (\<lambda>t. t = OfferTask ''me-aaa'')
          (tasks (step offered (WsMessage 0 (RoomJoined [''me-ccc'', ''me-aaa''])))) = []
     \<and> filter (\<lambda>ch. snd ch = ''me-aaa'')
          (createdChannels (step offered (WsMessage 0 (RoomJoined [''me-ccc'', ''me-aaa''])))) = []"
    by (simp add: Let_def side_a_facts offered_facts del: step.simps)
  have m: "myId offered \<in> set [''me-bbb'']" "myId offered \<noteq> myId side_a"
    by (simp_all add: side_a_facts offered_facts)
  note t3 = both_sides_initiate [OF g(1,2,3) h(1,2,3) m(2,1), of "''sdp-b''" "''sdp-a''"]
  from t3 n(3) have p: "step offered (WsMessage 0 (PeerJoined ''me-aaa'')) = offered"
    by (simp add: side_a_facts del: step.simps)
  from t1 n(1) have f:
    "connections (step side_a (WsMessage 0 (Offer ''me-bbb'' ''me-aaa'' ''sdp-b''))) ''me-bbb'' = Some 0
     \<and> step (step side_a (WsMessage 0 (Offer ''me-bbb'' ''me-aaa'' ''sdp-b'')))
          (WsMessage 0 (PeerJoined ''me-bbb''))
          = step side_a (WsMessage 0 (Offer ''me-bbb'' ''me-aaa'' ''sdp-b''))"
    by (simp add: Let_def side_a_facts side_b_facts del: step.simps)
  from h g n a b2 o p f show ?thesis by (simp add: run_def del: step.simps)
qed

text \<open>
  The claim as stated, exactly one initiator, fails for the peers \<open>me-aaa\<close> and \<open>me-bbb\<close>:
  each of them creates a connection and a data channel for the other and sends it an
  offer.
\<close>

theorem single_initiator_counterexample:
  "signalingSent (run side_a [WsMessage 0 (PeerJoined ''me-bbb''),
                              TaskSettled (OfferTask ''me-bbb'') (Some ''sdp-a'')])
     = [Join ''bitchat-room'' ''me-aaa'', Offer ''me-aaa'' ''me-bbb'' ''sdp-a'']
   \<and> createdChannels (run side_a [WsMessage 0 (PeerJoined ''me-bbb''),
                              TaskSettled (OfferTask ''me-bbb'') (Some ''sdp-a'')])
     = [(0, ''me-bbb'')]
   \<and> signalingSent (run side_b [WsMessage 0 (RoomJoined [''me-aaa'']),
                                TaskSettled (OfferTask ''me-aaa'') (Some ''sdp-b'')])
     = [Join ''bitchat-room'' ''me-bbb'', Offer ''me-bbb'' ''me-aaa'' ''sdp-b'']
   \<and> createdChannels (run side_b [WsMessage 0 (RoomJoined [''me-aaa'']),
                                TaskSettled (OfferTask ''me-aaa'') (Some ''sdp-b'')])
     = [(0, ''me-aaa'')]"
  by (simp add: run_def side_a_facts side_b_facts initiateConnectionToPeer_def
      sendSignalingMessage_def signalingWs_def)

subsection \<open>A negotiation that is never answered\<close>

lemma connections_sendToPeer: "connections (fst (sendToPeer s p m)) = connections s"
  by (simp add: sendToPeer_def channel_send_def split: option.splits)

lemma connections_broadcast_loop: "connections (fst (broadcast_loop s m ps n)) = connections s"
proof (induction ps arbitrary: s n)
  case Nil
  show ?case by simp
next
  case (Cons p ps)
  obtain s' ok where r: "sendToPeer s p m = (s', ok)" by (cases "sendToPeer s p m")
  with connections_sendToPeer [of s p m] have "connections s' = connections s" by simp
  with r show ?case by (simp add: Cons.IH)
qed

lemma connections_onPeerConnected: "connections (onPeerConnected s p) = connections s"
  by (simp add: onPeerConnected_def Let_def sendHandshake_def notify_def connections_sendToPeer)

lemma connections_onPeerDisconnected:
  "p \<noteq> x \<Longrightarrow> connections (onPeerDisconnected s p) x = connections s x"
  by (simp add: onPeerDisconnected_def notify_def)

lemma connections_handleWebRTCSignaling:
  "connections s x = Some c \<Longrightarrow> connections (handleWebRTCSignaling s p m) x = Some c"
  by (auto simp add: handleWebRTCSignaling_def handleIncomingOffer_def
      split: option.splits signaling_message.splits)

lemma connections_handleSignalingMessage:
  "connections s x = Some c \<Longrightarrow> \<not> releases x (WsMessage i m) \<Longrightarrow>
   connections (handleSignalingMessage s m) x = Some c"
  by (cases m) (simp_all add: connections_initiate connections_initiate_each
      connections_handleWebRTCSignaling connections_onPeerDisconnected)

lemma connections_handleIncomingMessage:
  "connections (handleIncomingMessage s p m) = connections s"
  by (cases m) (simp_all add: touch_peer_def handleHandshake_def notify_def split: option.splits)

lemma connections_fire: "connections (fire s t) = connections s"
  by (cases t) (simp_all add: simulatePeerDiscovery_def discover_simulated_def notify_def
      connections_onPeerConnected Let_def split: prod.splits)

lemma connections_resume:
  "connections s x = Some c \<Longrightarrow> \<not> releases x (TaskSettled t r) \<Longrightarrow>
   connections (resume s t r) x = Some c"
  by (cases t; cases r) (auto simp add: sendSignalingMessage_def signalingWs_def)

lemma step_keeps_connection:
  assumes "connections s x = Some c" "\<not> releases x e"
  shows "connections (step s e) x = Some c"
proof (cases e)
  case (WsMessage i m)
  with assms show ?thesis by (simp add: connections_handleSignalingMessage)
next
  case (TimerFired t)
  with assms show ?thesis by (simp add: connections_fire)
next
  case (TaskSettled t r)
  with assms show ?thesis by (simp add: connections_resume)
next
  case (ConnectionStateChange p st)
  with assms show ?thesis
    by (auto simp add: connections_onPeerConnected connections_onPeerDisconnected)
next
  case (DisconnectFromPeer p)
  with assms show ?thesis by (simp add: disconnectFromPeer_def connections_onPeerDisconnected)
next
  case (ConnectToPeer p)
  with assms show ?thesis by (simp add: connectToPeer_def connections_initiate)
next
  case (SendToPeer p m)
  with assms show ?thesis by (simp add: connections_sendToPeer)
next
  case (BroadcastMessage m)
  with assms show ?thesis by (simp add: broadcastMessage_def connections_broadcast_loop)
next
  case (ProbeResolved h w)
  with assms show ?thesis by (simp add: initWithFallback_def setupSignaling_def Let_def)
next
  case (WsOpen i)
  with assms show ?thesis by (simp add: ws_onopen_def joinSignalingRoom_def signalingWs_def)
next
  case (WsClose i)
  with assms show ?thesis by (simp add: ws_onclose_def)
next
  case IntervalFired
  with assms show ?thesis by (simp add: scan_interval_def simulatePeerDiscovery_def)
next
  case StartScanning
  with assms show ?thesis by (simp add: startScanning_def startPeerDiscovery_def notify_def)
next
  case StopScanning
  with assms show ?thesis by (simp add: stopScanning_def notify_def)
next
  case DisconnectAll
  with assms show ?thesis by simp
next
  case (ChannelReadyState p rs)
  with assms show ?thesis by (simp split: option.splits)
next
  case (LocalCandidate p cand)
  with assms show ?thesis
    by (simp add: onicecandidate_def sendSignalingMessage_def signalingWs_def split: option.splits)
next
  case (ChannelMessage p m)
  with assms show ?thesis by (simp add: connections_handleIncomingMessage)
qed (use assms in \<open>simp_all add: setDelegate_def setMyNickname_def startAdvertising_def
    stopAdvertising_def init_def simulatePeerDiscovery_def\<close>)

lemma run_keeps_connection:
  "connections s x = Some c \<Longrightarrow> \<forall>e \<in> set es. \<not> releases x e \<Longrightarrow>
   connections (run s es) x = Some c"
proof (induction es arbitrary: s)
  case Nil
  then show ?case by (simp add: run_def)
next
  case (Cons e es)
  from Cons.prems have "connections (step s e) x = Some c"
    by (simp add: step_keeps_connection)
  with Cons.prems have "connections (run (step s e) es) x = Some c"
    by (intro Cons.IH) simp_all
  then show ?case by (simp add: run_def)
qed

text \<open>
  Claim C5, as amended. The service has no negotiation timeout. Once the table holds a
  connection for \<open>x\<close>, it holds the same connection after every sequence of events none of
  which releases \<open>x\<close>, whatever time passes (\<open>Tick\<close>) and whatever timers fire; and in the
  state reached, \<open>connectToPeer(x)\<close> changes nothing: the existing session is kept and no new
  one is created.
\<close>

theorem negotiation_has_no_timeout:
  assumes "connections s x = Some c" and "\<forall>e \<in> set es. \<not> releases x e"
  shows "connections (run s es) x = Some c
       \<and> step (run s es) (ConnectToPeer x) = run s es"
proof -
  have k: "connections (run s es) x = Some c"
    using assms by (rule run_keeps_connection)
  then have "step (run s es) (ConnectToPeer x) = run s es"
    by (simp add: connectToPeer_def initiateConnectionToPeer_def)
  with k show ?thesis by simp
qed

lemma stale_facts:
  "connections stale ''peer-x'' = Some 0" "nextConnection stale = 1" "tasks stale = []"
  "timers stale = []" "now stale = 3600000"
  "signalingSent stale = [Join ''bitchat-room'' ''me-1'', Offer ''me-1'' ''peer-x'' ''offer-sdp'']"
  by (simp_all add: stale_def run_def new_service_def init_def initWithFallback_def setupSignaling_def
      ws_onopen_def joinSignalingRoom_def signalingWs_def connectToPeer_def initiateConnectionToPeer_def
      sendSignalingMessage_def signalingWs_def Let_def)

text \<open>
  The claim as stated fails: an hour after the offer to \<open>peer-x\<close> was sent, with no answer
  and no timer pending, the table still holds the first connection, and a connect attempt
  creates no connection and prepares no offer.
\<close>

theorem negotiation_timeout_counterexample:
  "now stale = 3600000 \<and> timers stale = []
   \<and> connections stale ''peer-x'' = Some 0
   \<and> connections (step stale (ConnectToPeer ''peer-x'')) ''peer-x'' = Some 0
   \<and> nextConnection (step stale (ConnectToPeer ''peer-x'')) = 1
   \<and> tasks (step stale (ConnectToPeer ''peer-x'')) = []
   \<and> signalingSent (step stale (ConnectToPeer ''peer-x''))
        = [Join ''bitchat-room'' ''me-1'', Offer ''me-1'' ''peer-x'' ''offer-sdp'']"
  by (simp add: stale_facts connectToPeer_def initiateConnectionToPeer_def)

theorem negotiation_has_no_timeout_witness:
  "connections stale ''peer-x'' = Some 0
   \<and> filter (releases ''peer-x'') waiting = []
   \<and> connections (run stale waiting) ''peer-x'' = Some 0
   \<and> step (run stale waiting) (ConnectToPeer ''peer-x'') = run stale waiting"
proof -
  have h: "connections stale ''peer-x'' = Some 0" by (simp add: stale_facts)
  have w: "\<forall>e \<in> set waiting. \<not> releases ''peer-x'' e" by (simp add: waiting_def)
  have f: "filter (releases ''peer-x'') waiting = []" by (simp add: waiting_def)
  from negotiation_has_no_timeout [OF h w] h f show ?thesis by simp
qed

subsection \<open>Simulated discovery\<close>

lemma quiet_notify: "quiet s \<Longrightarrow> \<not> is_discovery ev \<Longrightarrow> quiet (notify s ev)"
  by (simp add: quiet_def notify_def)

lemma quiet_sendToPeer: "quiet s \<Longrightarrow> quiet (fst (sendToPeer s p m))"
  by (simp add: quiet_def sendToPeer_def channel_send_def split: option.splits)

lemma quiet_broadcast_loop: "quiet s \<Longrightarrow> quiet (fst (broadcast_loop s m ps n))"
proof (induction ps arbitrary: s n)
  case Nil
  then show ?case by simp
next
  case (Cons p ps)
  obtain s' ok where r: "sendToPeer s p m = (s', ok)" by (cases "sendToPeer s p m")
  with quiet_sendToPeer [OF Cons.prems, of p m] have "quiet s'" by simp
  with r show ?case by (simp add: Cons.IH)
qed

lemma quiet_onPeerConnected: "quiet s \<Longrightarrow> quiet (onPeerConnected s p)"
proof -
  assume q: "quiet s"
  have "quiet (notify (s\<lparr>peers := ps\<rparr>) (OnPeerConnected p n))" for ps n
    using q by (intro quiet_notify) (simp_all add: quiet_def)
  then show ?thesis
    by (simp add: onPeerConnected_def Let_def sendHandshake_def quiet_sendToPeer)
qed

lemma quiet_onPeerDisconnected: "quiet s \<Longrightarrow> quiet (onPeerDisconnected s p)"
  unfolding onPeerDisconnected_def by (intro quiet_notify) (simp_all add: quiet_def)

lemma quiet_initiate: "quiet s \<Longrightarrow> quiet (initiateConnectionToPeer s p)"
  by (simp add: quiet_def initiateConnectionToPeer_def)

lemma quiet_initiate_each: "quiet s \<Longrightarrow> quiet (initiate_each s ps)"
  by (induction ps arbitrary: s) (simp_all add: quiet_initiate)

lemma quiet_handleWebRTCSignaling: "quiet s \<Longrightarrow> quiet (handleWebRTCSignaling s p m)"
  by (simp add: quiet_def handleWebRTCSignaling_def handleIncomingOffer_def
      split: option.splits signaling_message.splits)

lemma quiet_handleSignalingMessage: "quiet s \<Longrightarrow> quiet (handleSignalingMessage s m)"
  by (cases m) (simp_all add: quiet_initiate quiet_initiate_each quiet_handleWebRTCSignaling
      quiet_onPeerDisconnected)

lemma quiet_touch_peer: "quiet s \<Longrightarrow> quiet (touch_peer s p)"
  by (simp add: quiet_def touch_peer_def split: option.splits)

lemma quiet_handleHandshake: "quiet s \<Longrightarrow> quiet (handleHandshake s p n)"
  unfolding handleHandshake_def
  by (intro quiet_notify) (simp_all add: quiet_def split: option.splits)

lemma quiet_handleIncomingMessage: "quiet s \<Longrightarrow> quiet (handleIncomingMessage s p m)"
  by (cases m) (simp_all add: quiet_touch_peer quiet_handleHandshake quiet_notify)

lemma quiet_resume: "quiet s \<Longrightarrow> quiet (resume s t r)"
  by (cases t; cases r) (simp_all add: quiet_def sendSignalingMessage_def signalingWs_def)

lemma step_stays_quiet:
  assumes "quiet s" "\<not> fallback_cause e" "scanIntervals s = 0"
  shows "quiet (step s e)"
proof (cases e)
  case (Tick ms)
  with assms show ?thesis by (simp add: quiet_def)
next
  case (ProbeResolved h w)
  with assms show ?thesis by (simp add: quiet_def initWithFallback_def setupSignaling_def Let_def)
next
  case (WsOpen i)
  with assms show ?thesis by (simp add: quiet_def ws_onopen_def joinSignalingRoom_def signalingWs_def)
next
  case (WsMessage i m)
  with assms show ?thesis by (simp add: quiet_handleSignalingMessage)
next
  case (TimerFired t)
  with assms show ?thesis by (simp add: quiet_def)
next
  case IntervalFired
  with assms show ?thesis by simp
next
  case (TaskSettled t r)
  have "quiet (s\<lparr>tasks := ts\<rparr>)" for ts using assms(1) by (simp add: quiet_def)
  with TaskSettled assms show ?thesis by (simp add: quiet_resume)
next
  case (ConnectionStateChange p st)
  with assms show ?thesis by (simp add: quiet_onPeerConnected quiet_onPeerDisconnected)
next
  case (ChannelOpen p acc)
  with assms show ?thesis by (simp add: quiet_def)
next
  case (ChannelReadyState p rs)
  with assms show ?thesis by (simp add: quiet_def split: option.splits)
next
  case (ChannelClose p)
  with assms show ?thesis by (simp add: quiet_def)
next
  case StopScanning
  have "quiet (s\<lparr>isScanning := False\<rparr>)" using assms(1) by (simp add: quiet_def)
  with StopScanning show ?thesis by (simp add: stopScanning_def quiet_notify)
next
  case (ConnectToPeer p)
  with assms show ?thesis by (simp add: connectToPeer_def quiet_initiate)
next
  case (DisconnectFromPeer p)
  with assms show ?thesis by (simp add: disconnectFromPeer_def quiet_onPeerDisconnected)
next
  case DisconnectAll
  with assms show ?thesis by (simp add: quiet_def disconnectAll_def)
next
  case (SendToPeer p m)
  with assms show ?thesis by (simp add: quiet_sendToPeer)
next
  case (BroadcastMessage m)
  with assms show ?thesis by (simp add: broadcastMessage_def quiet_broadcast_loop)
next
  case (LocalCandidate p c)
  with assms show ?thesis
    by (simp add: quiet_def onicecandidate_def sendSignalingMessage_def signalingWs_def split: option.splits)
next
  case (ChannelMessage p m)
  with assms show ?thesis by (simp add: quiet_handleIncomingMessage)
qed (use assms in \<open>simp_all add: quiet_def setDelegate_def setMyNickname_def
    startAdvertising_def stopAdvertising_def init_def\<close>)

lemma scanIntervals_sendToPeer: "scanIntervals (fst (sendToPeer s p m)) = scanIntervals s"
  by (simp add: sendToPeer_def channel_send_def split: option.splits)

lemma scanIntervals_broadcast_loop: "scanIntervals (fst (broadcast_loop s m ps n)) = scanIntervals s"
proof (induction ps arbitrary: s n)
  case Nil
  show ?case by simp
next
  case (Cons p ps)
  obtain s' ok where r: "sendToPeer s p m = (s', ok)" by (cases "sendToPeer s p m")
  with scanIntervals_sendToPeer [of s p m] have "scanIntervals s' = scanIntervals s" by simp
  with r show ?case by (simp add: Cons.IH)
qed

lemma scanIntervals_onPeerConnected: "scanIntervals (onPeerConnected s p) = scanIntervals s"
  by (simp add: onPeerConnected_def Let_def sendHandshake_def notify_def scanIntervals_sendToPeer)

lemma scanIntervals_onPeerDisconnected: "scanIntervals (onPeerDisconnected s p) = scanIntervals s"
  by (simp add: onPeerDisconnected_def notify_def)

lemma scanIntervals_initiate_each: "scanIntervals (initiate_each s ps) = scanIntervals s"
  by (induction ps arbitrary: s) (simp_all add: initiateConnectionToPeer_def)

lemma scanIntervals_handleSignalingMessage:
  "scanIntervals (handleSignalingMessage s m) = scanIntervals s"
  by (cases m) (simp_all add: initiateConnectionToPeer_def scanIntervals_initiate_each
      scanIntervals_onPeerDisconnected handleWebRTCSignaling_def handleIncomingOffer_def
      split: option.splits signaling_message.splits)

lemma scanIntervals_handleIncomingMessage:
  "scanIntervals (handleIncomingMessage s p m) = scanIntervals s"
  by (cases m) (simp_all add: touch_peer_def handleHandshake_def notify_def split: option.splits)

lemma scanIntervals_fire: "scanIntervals (fire s t) = scanIntervals s"
  by (cases t) (simp_all add: simulatePeerDiscovery_def discover_simulated_def notify_def
      scanIntervals_onPeerConnected Let_def split: prod.splits)

lemma scanIntervals_resume: "scanIntervals (resume s t r) = scanIntervals s"
  by (cases t; cases r) (simp_all add: sendSignalingMessage_def signalingWs_def)

lemma step_scanIntervals:
  assumes "e \<noteq> StartScanning"
  shows "scanIntervals (step s e) = scanIntervals s"
proof (cases e)
  case (ProbeResolved h w)
  then show ?thesis by (simp add: initWithFallback_def setupSignaling_def Let_def)
next
  case (WsOpen i)
  then show ?thesis by (simp add: ws_onopen_def joinSignalingRoom_def signalingWs_def)
next
  case (WsMessage i m)
  then show ?thesis by (simp add: scanIntervals_handleSignalingMessage)
next
  case (WsClose i)
  then show ?thesis by (simp add: ws_onclose_def)
next
  case (TimerFired t)
  then show ?thesis by (simp add: scanIntervals_fire)
next
  case IntervalFired
  then show ?thesis by (simp add: scan_interval_def simulatePeerDiscovery_def)
next
  case (TaskSettled t r)
  then show ?thesis by (simp add: scanIntervals_resume)
next
  case (ConnectionStateChange p st)
  then show ?thesis by (simp add: scanIntervals_onPeerConnected scanIntervals_onPeerDisconnected)
next
  case (ChannelReadyState p rs)
  then show ?thesis by (simp split: option.splits)
next
  case StopScanning
  then show ?thesis by (simp add: stopScanning_def notify_def)
next
  case (ConnectToPeer p)
  then show ?thesis by (simp add: connectToPeer_def initiateConnectionToPeer_def)
next
  case (DisconnectFromPeer p)
  then show ?thesis by (simp add: disconnectFromPeer_def scanIntervals_onPeerDisconnected)
next
  case DisconnectAll
  then show ?thesis by (simp add: disconnectAll_def)
next
  case (SendToPeer p m)
  then show ?thesis by (simp add: scanIntervals_sendToPeer)
next
  case (BroadcastMessage m)
  then show ?thesis by (simp add: broadcastMessage_def scanIntervals_broadcast_loop)
next
  case (LocalCandidate p c)
  then show ?thesis
    by (simp add: onicecandidate_def sendSignalingMessage_def signalingWs_def split: option.splits)
next
  case (ChannelMessage p m)
  then show ?thesis by (simp add: scanIntervals_handleIncomingMessage)
qed (use assms in \<open>simp_all add: setDelegate_def setMyNickname_def startAdvertising_def
    stopAdvertising_def init_def simulatePeerDiscovery_def\<close>)

lemma run_snoc: "run s (es @ [e]) = step (run s es) e"
  by (simp add: run_def)

text \<open>
  A run in which the service reacts to none of these events: each of them, where it
  occurs, leaves the state as it is (a probe that is not pending, a socket that does not
  exist or is closed).
\<close>

lemma run_stays_quiet:
  "quiet s \<Longrightarrow> scanIntervals s = 0 \<Longrightarrow>
   \<forall>es1 e es2. es = es1 @ e # es2 \<longrightarrow> fallback_cause e \<longrightarrow> step (run s es1) e = run s es1 \<Longrightarrow>
   quiet (run s es) \<and> scanIntervals (run s es) = 0"
proof (induction es rule: rev_induct)
  case Nil
  then show ?case by (simp add: run_def)
next
  case (snoc e es)
  have "step (run s es1) e' = run s es1" if "es = es1 @ e' # es2" "fallback_cause e'"
    for es1 e' es2
  proof -
    from that(1) have "es @ [e] = es1 @ e' # (es2 @ [e])" by simp
    with snoc.prems(3) that(2) show ?thesis by blast
  qed
  then have "\<forall>es1 e' es2. es = es1 @ e' # es2 \<longrightarrow> fallback_cause e' \<longrightarrow>
      step (run s es1) e' = run s es1"
    by blast
  with snoc.IH snoc.prems(1,2) have ih: "quiet (run s es)" "scanIntervals (run s es) = 0"
    by simp_all
  show ?case
  proof (cases "fallback_cause e")
    case True
    have "es @ [e] = es @ e # []" by simp
    with snoc.prems(3) True have "step (run s es) e = run s es" by blast
    with ih show ?thesis by (simp add: run_snoc)
  next
    case False
    then have "e \<noteq> StartScanning" by auto
    with ih False show ?thesis
      by (simp add: run_snoc step_stays_quiet step_scanIntervals)
  qed
qed

text \<open>
  Claim C4, as amended. A session is a sequence of callbacks of the platform and of
  calls on the service. From a state in which no simulated discovery is scheduled or has
  run and no scan interval is registered, as the constructor leaves it, a simulated peer
  is discovered (an entry of \<open>discoveredPeers\<close>, an \<open>onPeerDiscovered\<close> call) only after
  one of these events has occurred and the service has reacted to it: a probe failed, a
  socket constructor threw, a signaling socket closed, scanning was started, or
  \<open>simulatePeerDiscovery()\<close> was called from outside.
\<close>

theorem simulated_discovery_has_cause:
  assumes "quiet s" and "scanIntervals s = 0"
    and "discoveredPeers (run s es) p \<noteq> None
         \<or> OnPeerDiscovered p name rssi \<in> set (delegate_log (run s es))"
  shows "\<exists>es1 e es2. es = es1 @ e # es2 \<and> fallback_cause e \<and> step (run s es1) e \<noteq> run s es1"
proof (rule ccontr)
  assume "\<not> (\<exists>es1 e es2. es = es1 @ e # es2 \<and> fallback_cause e \<and> step (run s es1) e \<noteq> run s es1)"
  then have "\<forall>es1 e es2. es = es1 @ e # es2 \<longrightarrow> fallback_cause e \<longrightarrow>
      step (run s es1) e = run s es1"
    by blast
  with assms(1,2) have q: "quiet (run s es)" by (simp add: run_stays_quiet)
  then have "discoveredPeers (run s es) p = None" by (simp add: quiet_def)
  moreover have "OnPeerDiscovered p name rssi \<notin> set (delegate_log (run s es))"
  proof
    assume "OnPeerDiscovered p name rssi \<in> set (delegate_log (run s es))"
    then have "OnPeerDiscovered p name rssi \<in> set (filter is_discovery (delegate_log (run s es)))"
      by simp
    with q show False by (simp add: quiet_def)
  qed
  ultimately show False using assms(3) by simp
qed

lemma after_close_facts:
  "hasSignaling after_close = Some True" "connections after_close ''me-2'' = Some 0"
  "delegate_log after_close = [OnPeerDiscovered ''peer-001'' ''Alice'' (- 45)]"
  by (simp_all add: after_close_def started_def run_def new_service_def init_def setDelegate_def
      initWithFallback_def setupSignaling_def ws_onopen_def joinSignalingRoom_def signalingWs_def
      initiateConnectionToPeer_def ws_onclose_def simulatePeerDiscovery_def
      discover_simulated_def simulatedPeers_def notify_def Let_def)

lemma while_open_facts:
  "hasSignaling while_open = Some True" "signalingWs while_open = WsOpened"
  "connections while_open ''me-2'' = Some 0"
  "delegate_log while_open = [OnScanningStarted, OnPeerDiscovered ''peer-001'' ''Alice'' (- 45)]"
  by (simp_all add: while_open_def started_def run_def new_service_def init_def setDelegate_def
      startScanning_def startPeerDiscovery_def scan_interval_def
      initWithFallback_def setupSignaling_def ws_onopen_def joinSignalingRoom_def signalingWs_def
      initiateConnectionToPeer_def simulatePeerDiscovery_def
      discover_simulated_def simulatedPeers_def notify_def Let_def)

lemma tested_facts:
  "hasSignaling tested = Some True" "sockets tested = [WsOpened, WsOpened]"
  "timers tested = [DiscoverTimer 1, DiscoverTimer 2, AutoConnectTimer ''peer-001'']"
  "map_option disc_name (discoveredPeers tested ''peer-001'') = Some ''Alice''"
  by (simp_all add: tested_def run_def new_service_def init_def
      initWithFallback_def setupSignaling_def ws_onopen_def joinSignalingRoom_def signalingWs_def
      simulatePeerDiscovery_def discover_simulated_def simulatedPeers_def notify_def Let_def)

text \<open>
  The claim as stated fails in three runs in which every probe finds the signaling
  server. With the relay announcing the peer \<open>me-2\<close>: after the socket closes, the fallback
  discovers Alice; and with scanning started, the scan interval discovers Alice while the
  socket is open. In the run of \<open>test.js\<close>, with both sockets open, the direct call of
  \<open>simulatePeerDiscovery()\<close> discovers Alice.
\<close>

theorem simulated_discovery_counterexample:
  "hasSignaling after_close = Some True
   \<and> connections after_close ''me-2'' = Some 0
   \<and> OnPeerDiscovered ''peer-001'' ''Alice'' (- 45) \<in> set (delegate_log after_close)
   \<and> hasSignaling while_open = Some True
   \<and> signalingWs while_open = WsOpened
   \<and> connections while_open ''me-2'' = Some 0
   \<and> OnPeerDiscovered ''peer-001'' ''Alice'' (- 45) \<in> set (delegate_log while_open)
   \<and> hasSignaling tested = Some True
   \<and> sockets tested = [WsOpened, WsOpened]
   \<and> map_option disc_name (discoveredPeers tested ''peer-001'') = Some ''Alice''"
  by (simp add: after_close_facts while_open_facts tested_facts)

theorem simulated_discovery_has_cause_witness:
  "quiet started \<and> scanIntervals started = 0
   \<and> OnPeerDiscovered ''peer-001'' ''Alice'' (- 45) \<in> set (delegate_log after_close)
   \<and> (\<exists>es1 e es2.
         [ProbeResolved True False, WsOpen 0, WsMessage 0 (RoomJoined [''me-2'']), WsClose 0,
          TimerFired FallbackTimer, TimerFired (DiscoverTimer 0)] = es1 @ e # es2
         \<and> fallback_cause e \<and> step (run started es1) e \<noteq> run started es1)
   \<and> quiet (new_service ''me-1'' ''bitchat-room'')
   \<and> scanIntervals (new_service ''me-1'' ''bitchat-room'') = 0
   \<and> discoveredPeers tested ''peer-001'' \<noteq> None
   \<and> (\<exists>es1 e es2.
         [Init, ProbeResolved True False, ProbeResolved True False, WsOpen 0, WsOpen 1,
          SimulatePeerDiscovery, TimerFired (DiscoverTimer 0)] = es1 @ e # es2
         \<and> fallback_cause e
         \<and> step (run (new_service ''me-1'' ''bitchat-room'') es1) e
              \<noteq> run (new_service ''me-1'' ''bitchat-room'') es1)"
proof -
  have q: "quiet started" "scanIntervals started = 0"
    by (simp_all add: quiet_def started_def new_service_def init_def setDelegate_def)
  have d: "discoveredPeers after_close ''peer-001'' \<noteq> None
         \<or> OnPeerDiscovered ''peer-001'' ''Alice'' (- 45) \<in> set (delegate_log after_close)"
    by (simp add: after_close_facts)
  have q': "quiet (new_service ''me-1'' ''bitchat-room'')"
    "scanIntervals (new_service ''me-1'' ''bitchat-room'') = 0"
    by (simp_all add: quiet_def new_service_def init_def)
  have t: "discoveredPeers tested ''peer-001'' \<noteq> None"
    using tested_facts(4) by auto
  then have d': "discoveredPeers tested ''peer-001'' \<noteq> None
         \<or> OnPeerDiscovered ''peer-001'' ''Alice'' (- 45) \<in> set (delegate_log tested)"
    by simp
  from simulated_discovery_has_cause [OF q d [unfolded after_close_def]]
    simulated_discovery_has_cause [OF q' d' [unfolded tested_def]]
    q q' t after_close_facts(3)
  show ?thesis by simp
qed

section \<open>Properties of leader election\<close>

lemma hd_sorted_Min: "sorted ys \<Longrightarrow> ys \<noteq> [] \<Longrightarrow> hd ys = Min (set ys)"
  by (cases ys) (auto intro!: Min_eqI [symmetric])

lemma hd_sort_Min:
  assumes "xs \<noteq> []"
  shows "hd (sort xs) = Min (set xs)"
proof -
  have "set (sort xs) = set xs" by simp
  with assms have "sort xs \<noteq> []" by (metis set_empty)
  with hd_sorted_Min [of "sort xs"] show ?thesis by simp
qed

lemma isLeader_electLeader:
  "isLeader (electLeader s tabs) =
     (case sort (Object_keys tabs) of [] \<Rightarrow> False | first # _ \<Rightarrow> first = myTabId s)"
  by (simp add: electLeader_def Let_def)

lemma leader_iff_min:
  "isLeader (electLeader s tabs) \<longleftrightarrow> tabs \<noteq> [] \<and> myTabId s = Min (fst ` set tabs)"
proof (cases tabs)
  case Nil
  then show ?thesis by (simp add: isLeader_electLeader Object_keys_def)
next
  case (Cons a list)
  then have ne: "Object_keys tabs \<noteq> []" by (simp add: Object_keys_def)
  then have "sort (Object_keys tabs) \<noteq> []" by (metis set_sort set_empty)
  then obtain f r where fr: "sort (Object_keys tabs) = f # r" by (cases "sort (Object_keys tabs)") auto
  have "f = hd (sort (Object_keys tabs))" by (simp add: fr)
  also have "\<dots> = Min (set (Object_keys tabs))" by (rule hd_sort_Min [OF ne])
  finally have "f = Min (fst ` set tabs)" by (simp add: Object_keys_def)
  with Cons fr show ?thesis by (auto simp add: isLeader_electLeader)
qed

text \<open>
  Claim C9. After \<open>electLeader()\<close> a tab is leader exactly when the table is not empty and
  its own id is the smallest key of the table in the lexicographic order of strings; so
  for a table that is not empty exactly one registered tab id elects itself. The result
  is a function of the tab id and the table.
\<close>

theorem electLeader_smallest_tab_id:
  "(isLeader (electLeader s tabs) \<longleftrightarrow> tabs \<noteq> [] \<and> myTabId s = Min (fst ` set tabs))
   \<and> (tabs \<noteq> [] \<longrightarrow>
        (\<exists>!t. t \<in> fst ` set tabs \<and> isLeader (electLeader (s\<lparr>myTabId := t\<rparr>) tabs)))"
proof -
  have "\<exists>!t. t \<in> fst ` set tabs \<and> isLeader (electLeader (s\<lparr>myTabId := t\<rparr>) tabs)"
    if ne: "tabs \<noteq> []"
  proof -
    have "Min (fst ` set tabs) \<in> fst ` set tabs"
      using ne by (intro Min_in) simp_all
    with ne show ?thesis
      by (intro ex1I [of _ "Min (fst ` set tabs)"]) (simp_all add: leader_iff_min)
  qed
  with leader_iff_min [of s tabs] show ?thesis by blast
qed



lemma three_tabs_sorted:
  "sort (Object_keys three_tabs) =
     [''tab-a9z-1700000000100'', ''tab-k3x-1700000000200'', ''tab-zz0-1700000000000'']"
  by (simp add: Object_keys_def three_tabs_def less_eq_char_def less_char_def)

theorem electLeader_smallest_tab_id_witness:
  "three_tabs \<noteq> []
   \<and> isLeader (electLeader (tab_of ''tab-a9z-1700000000100'') three_tabs)
   \<and> \<not> isLeader (electLeader (tab_of ''tab-k3x-1700000000200'') three_tabs)
   \<and> \<not> isLeader (electLeader (tab_of ''tab-zz0-1700000000000'') three_tabs)
   \<and> (\<exists>!t. t \<in> fst ` set three_tabs
            \<and> isLeader (electLeader ((tab_of ''tab-k3x-1700000000200'')\<lparr>myTabId := t\<rparr>) three_tabs))"
proof -
  have ne: "three_tabs \<noteq> []" by (simp add: three_tabs_def)
  have l: "isLeader (electLeader (tab_of ''tab-a9z-1700000000100'') three_tabs)"
    "\<not> isLeader (electLeader (tab_of ''tab-k3x-1700000000200'') three_tabs)"
    "\<not> isLeader (electLeader (tab_of ''tab-zz0-1700000000000'') three_tabs)"
    by (simp_all add: isLeader_electLeader three_tabs_sorted tab_of_def)
  from electLeader_smallest_tab_id [of "tab_of ''tab-k3x-1700000000200''" three_tabs] ne l
  show ?thesis by simp
qed

section \<open>Properties of ChatService: what is written to a channel\<close>

lemma chatting_peers:
  "map peer_name (getConnectedPeers (bluetoothService chatting)) = [''Peer-q9xa'']"
  "map peer_id (getConnectedPeers (bluetoothService chatting)) = [''me-7f3k2q9xa'']"
  by (simp_all add: chatting_def run_def new_service_def init_def getConnectedPeers_def
      onPeerConnected_def notify_def sendHandshake_def sendToPeer_def slice_last4_def Let_def)

lemma chatting_channel:
  "dataChannels (bluetoothService chatting) ''me-7f3k2q9xa''
     = Some \<lparr>readyState = Open, accepts = (\<lambda>m. True), sent = []\<rparr>"
  by (simp add: chatting_def run_def)

lemma private_envelope:
  \<open>JSON_stringify (JObject
      [(''id'', JString ''0f1e2d3c''), (''type'', JString ''private''),
       (''from'', JString ''SwiftFox42''), (''to'', JString ''Peer-q9xa''),
       (''content'', JString ''hello''), (''timestamp'', JString ''2025-01-01T12:00:00.000Z'')])
   = ''{"id":"0f1e2d3c","type":"private","from":"SwiftFox42","to":"Peer-q9xa","content":"hello","timestamp":"2025-01-01T12:00:00.000Z"}''\<close>
  by (simp add: QuoteJSONString_def quote_unit_def)

lemma bluetoothService_addPrivateMessage:
  "bluetoothService (addPrivateMessage s peer message) = bluetoothService s"
  by (simp add: addPrivateMessage_def Let_def)

lemma sendPrivateMessage_delivered:
  assumes "find_peer (getConnectedPeers (bluetoothService s)) target = Some tp"
    and "sendToPeer (bluetoothService s) (peer_id tp)
           (JSON_stringify (JObject
              [(''id'', JString mid), (''type'', JString ''private''),
               (''from'', JString (myNickname s)), (''to'', JString target),
               (''content'', JString content), (''timestamp'', JString (iso_string ts))]))
         = (bt, True)"
  shows "snd (sendPrivateMessage s target content mid ts eid edate) = True"
    and "bluetoothService (fst (sendPrivateMessage s target content mid ts eid edate)) = bt"
  using assms
  by (simp_all add: sendPrivateMessage_def Let_def bluetoothService_addPrivateMessage
      del: JSON_stringify.simps)

text \<open>
  Claim C1 at a concrete input. \<open>sendPrivateMessage\<close> to a connected peer with an open
  channel returns \<open>true\<close>, and what it writes to the channel is the JSON text of the
  envelope, as \<open>JSON.stringify\<close> produced it: no key is looked up and nothing is encrypted.
  \<open>sendChannelMessage\<close> returns \<open>false\<close> and leaves the Bluetooth service as it was: the
  call on the cross-tab service throws before the broadcast.
\<close>

theorem private_message_sent_in_plaintext:
  \<open>snd (sendPrivateMessage chatting ''Peer-q9xa'' ''hello'' ''0f1e2d3c'' noon ''4b5a6978'' noon) = True
   \<and> map_option sent
        (dataChannels
           (bluetoothService
              (fst (sendPrivateMessage chatting ''Peer-q9xa'' ''hello'' ''0f1e2d3c'' noon ''4b5a6978'' noon)))
           ''me-7f3k2q9xa'')
     = Some [''{"id":"0f1e2d3c","type":"private","from":"SwiftFox42","to":"Peer-q9xa","content":"hello","timestamp":"2025-01-01T12:00:00.000Z"}'']
   \<and> snd (sendChannelMessage chatting ''#test'' ''hello'' ''0f1e2d3c'' noon) = False
   \<and> bluetoothService (fst (sendChannelMessage chatting ''#test'' ''hello'' ''0f1e2d3c'' noon))
     = bluetoothService chatting\<close>
proof -
  define envelope where \<open>envelope = ''{"id":"0f1e2d3c","type":"private","from":"SwiftFox42","to":"Peer-q9xa","content":"hello","timestamp":"2025-01-01T12:00:00.000Z"}''\<close>
  define bt where "bt = (bluetoothService chatting)\<lparr>dataChannels :=
      (dataChannels (bluetoothService chatting))(''me-7f3k2q9xa'' \<mapsto>
         \<lparr>readyState = Open, accepts = (\<lambda>m. True), sent = [envelope]\<rparr>)\<rparr>"
  have n: "myNickname chatting = ''SwiftFox42''" by (simp add: chatting_def)
  obtain tp where tp: "getConnectedPeers (bluetoothService chatting) = [tp]"
    "peer_name tp = ''Peer-q9xa''" "peer_id tp = ''me-7f3k2q9xa''"
    using chatting_peers by (cases "getConnectedPeers (bluetoothService chatting)") auto
  have f: "find_peer (getConnectedPeers (bluetoothService chatting)) ''Peer-q9xa'' = Some tp"
    by (simp add: find_peer_def tp)
  have s: "sendToPeer (bluetoothService chatting) (peer_id tp)
           (JSON_stringify (JObject
              [(''id'', JString ''0f1e2d3c''), (''type'', JString ''private''),
               (''from'', JString (myNickname chatting)), (''to'', JString ''Peer-q9xa''),
               (''content'', JString ''hello''), (''timestamp'', JString (iso_string noon))]))
         = (bt, True)"
    unfolding n tp(3) noon_def
    by (simp only: js_date.simps private_envelope)
       (simp add: sendToPeer_def channel_send_def chatting_channel bt_def envelope_def)
  note d = sendPrivateMessage_delivered [OF f s, of "''4b5a6978''" noon]
  have c: "snd (sendChannelMessage chatting ''#test'' ''hello'' ''0f1e2d3c'' noon) = False"
    "bluetoothService (fst (sendChannelMessage chatting ''#test'' ''hello'' ''0f1e2d3c'' noon))
     = bluetoothService chatting"
    by (simp_all add: sendChannelMessage_def crossTabService_sendMessage_def addMessage_def Let_def)
  have "map_option sent (dataChannels bt ''me-7f3k2q9xa'') = Some [envelope]"
    by (simp add: bt_def)
  with d c show ?thesis unfolding envelope_def by simp
qed

end
